theory Spec2Isabelle
  imports Complex_Main "HOL-Library.Word"
begin

section \<open>Basic types\<close>

text \<open>
  Go strings are byte sequences: a key, a message and a response body are
  \<^typ>\<open>string\<close>. Go's \<open>int\<close> and \<open>int64\<close> are 64-bit words read through
  \<^const>\<open>sint\<close>; \<open>+\<close> on them wraps as in Go. A \<open>time.Time\<close> is the number
  of nanoseconds since the zero time, and \<open>time.Now()\<close> is an argument \<open>now\<close>
  of every function that reads the clock.
\<close>

type_synonym key = string
type_synonym int64 = "64 word"
type_synonym time = int

definition Minute :: int where
  "Minute = 60 * 1000000000"

definition zeroTime :: time where
  "zeroTime = 0"

text \<open>Go's \<open>%\<close> truncates towards zero; the caller checks the divisor.\<close>

definition go_rem :: "int \<Rightarrow> int \<Rightarrow> int" where
  "go_rem a b = sgn a * (\<bar>a\<bar> mod \<bar>b\<bar>)"

text \<open>\<open>fmt.Sprintf("%d", n)\<close>.\<close>

fun digits :: "nat \<Rightarrow> string" where
  "digits n = (if n < 10 then [''0123456789'' ! n]
               else digits (n div 10) @ [''0123456789'' ! (n mod 10)])"

declare digits.simps [simp del]

definition fmt_d :: "int \<Rightarrow> string" where
  "fmt_d i = (if i < 0 then ''-'' @ digits (nat (- i)) else digits (nat i))"

text \<open>
  What a handler writes to the client: a status with a plain body, or a status with a JSON
  document. \<open>http.Error(w, msg, code)\<close> writes the status and the message followed by a
  newline.
\<close>

datatype json = JString string | JInt int | JArray "json list" | JObject "(string \<times> json) list"

datatype response = Plain int string | JSON int json

fun statusOf :: "response \<Rightarrow> int" where
  "statusOf (Plain code body) = code"
| "statusOf (JSON code doc) = code"

definition http_Error :: "string \<Rightarrow> int \<Rightarrow> response" where
  "http_Error msg code = Plain code (msg @ [CHR 0x0A])"

text \<open>\<open>strings.HasPrefix\<close>.\<close>

definition HasPrefix :: "string \<Rightarrow> string \<Rightarrow> bool" where
  "HasPrefix s p = (take (length p) s = p)"


section \<open>Package errors\<close>

datatype ErrorType =
    ErrorTypeUnauthorized
  | ErrorTypeInvalidKey
  | ErrorTypeForbidden
  | ErrorTypeNotFound
  | ErrorTypeBadRequest
  | ErrorTypeRateLimit
  | ErrorTypeQuotaExceeded
  | ErrorTypeServerError
  | ErrorTypeTimeout
  | ErrorTypeNetworkError
  | ErrorTypeNoKeysAvailable
  | ErrorTypeConfigError
  | ErrorTypeInternalError

record TavilyError =
  te_Type :: ErrorType
  te_Message :: string
  te_StatusCode :: int
  te_Key :: string
  te_Permanent :: bool
  te_Retryable :: bool

text \<open>\<open>classifyError\<close> returns \<open>(permanent, retryable)\<close>; the last equation is the \<open>default\<close> branch.\<close>

fun classifyError :: "ErrorType \<Rightarrow> int \<Rightarrow> bool \<times> bool" where
  "classifyError ErrorTypeUnauthorized statusCode = (True, True)"
| "classifyError ErrorTypeInvalidKey statusCode = (True, True)"
| "classifyError ErrorTypeForbidden statusCode = (True, True)"
| "classifyError ErrorTypeNotFound statusCode = (False, False)"
| "classifyError ErrorTypeBadRequest statusCode = (False, False)"
| "classifyError ErrorTypeRateLimit statusCode = (False, True)"
| "classifyError ErrorTypeQuotaExceeded statusCode = (False, True)"
| "classifyError ErrorTypeServerError statusCode = (False, True)"
| "classifyError ErrorTypeTimeout statusCode = (False, True)"
| "classifyError ErrorTypeNetworkError statusCode = (False, True)"
| "classifyError ErrorTypeNoKeysAvailable statusCode = (False, False)"
| "classifyError _ statusCode = (False, True)"

definition NewTavilyError :: "ErrorType \<Rightarrow> string \<Rightarrow> int \<Rightarrow> TavilyError" where
  "NewTavilyError errorType message statusCode =
     (case classifyError errorType statusCode of
        (permanent, retryable) \<Rightarrow>
          \<lparr>te_Type = errorType, te_Message = message, te_StatusCode = statusCode,
           te_Key = [], te_Permanent = permanent, te_Retryable = retryable\<rparr>)"

definition NewTavilyErrorWithKey :: "ErrorType \<Rightarrow> string \<Rightarrow> int \<Rightarrow> key \<Rightarrow> TavilyError" where
  "NewTavilyErrorWithKey errorType message statusCode k =
     (NewTavilyError errorType message statusCode)\<lparr>te_Key := k\<rparr>"

definition IsPermanent :: "TavilyError \<Rightarrow> bool" where
  "IsPermanent e = te_Permanent e"

definition IsRetryable :: "TavilyError \<Rightarrow> bool" where
  "IsRetryable e = te_Retryable e"

text \<open>The \<open>switch statusCode\<close> of \<open>ParseHTTPError\<close>: the kind and the base message.\<close>

definition statusSwitch :: "int \<Rightarrow> ErrorType \<times> string" where
  "statusSwitch statusCode =
     (if statusCode = 401 then (ErrorTypeUnauthorized, ''Invalid or expired API key'')
      else if statusCode = 403 then (ErrorTypeForbidden, ''Access forbidden'')
      else if statusCode = 404 then (ErrorTypeNotFound, ''Endpoint not found'')
      else if statusCode = 400 then (ErrorTypeBadRequest, ''Bad request'')
      else if statusCode = 429 then (ErrorTypeRateLimit, ''Rate limit exceeded'')
      else if statusCode = 432 then (ErrorTypeQuotaExceeded, ''API quota exceeded'')
      else if statusCode = 433 then (ErrorTypeQuotaExceeded, ''Monthly quota exceeded'')
      else if statusCode = 500 \<or> statusCode = 502 \<or> statusCode = 503 \<or> statusCode = 504
        then (ErrorTypeServerError, ''Server error'')
      else (ErrorTypeInternalError, ''HTTP '' @ fmt_d statusCode @ '' error''))"

definition ParseHTTPError :: "int \<Rightarrow> string \<Rightarrow> key \<Rightarrow> TavilyError" where
  "ParseHTTPError statusCode body k =
     (case statusSwitch statusCode of
        (errorType, message) \<Rightarrow>
          NewTavilyErrorWithKey errorType
            (if 0 < length body \<and> length body < 500 then message @ '': '' @ body else message)
            statusCode k)"

text \<open>
  \<open>(*TavilyError).Error()\<close> slices \<open>e.Key[:8]\<close>: a non-empty key shorter than
  eight bytes panics there (\<open>None\<close>).
\<close>

definition ErrorTypeString :: "ErrorType \<Rightarrow> string" where
  "ErrorTypeString t =
     (case t of
        ErrorTypeUnauthorized \<Rightarrow> ''unauthorized''
      | ErrorTypeInvalidKey \<Rightarrow> ''invalid_key''
      | ErrorTypeForbidden \<Rightarrow> ''forbidden''
      | ErrorTypeNotFound \<Rightarrow> ''not_found''
      | ErrorTypeBadRequest \<Rightarrow> ''bad_request''
      | ErrorTypeRateLimit \<Rightarrow> ''rate_limit''
      | ErrorTypeQuotaExceeded \<Rightarrow> ''quota_exceeded''
      | ErrorTypeServerError \<Rightarrow> ''server_error''
      | ErrorTypeTimeout \<Rightarrow> ''timeout''
      | ErrorTypeNetworkError \<Rightarrow> ''network_error''
      | ErrorTypeNoKeysAvailable \<Rightarrow> ''no_keys_available''
      | ErrorTypeConfigError \<Rightarrow> ''config_error''
      | ErrorTypeInternalError \<Rightarrow> ''internal_error'')"

definition Error :: "TavilyError \<Rightarrow> string option" where
  "Error e =
     (if te_Key e \<noteq> [] then
        (if length (te_Key e) < 8 then None
         else Some (''['' @ ErrorTypeString (te_Type e) @ ''] '' @ te_Message e
                    @ '' (key: '' @ take 8 (te_Key e) @ ''...)''))
      else Some (''['' @ ErrorTypeString (te_Type e) @ ''] '' @ te_Message e))"

text \<open>The kind and the two flags of a classified error.\<close>

definition flags :: "TavilyError \<Rightarrow> ErrorType \<times> bool \<times> bool" where
  "flags e = (te_Type e, IsPermanent e, IsRetryable e)"

definition categorised :: "int list" where
  "categorised = [401, 403, 404, 400, 429, 432, 433, 500, 502, 503, 504]"


section \<open>Package types\<close>

type_synonym SelectionStrategy = string

definition StrategyPlanFirst :: SelectionStrategy where
  "StrategyPlanFirst = ''plan_first''"

definition StrategyRoundRobin :: SelectionStrategy where
  "StrategyRoundRobin = ''round_robin''"

record KeyStatus =
  ks_Active :: bool
  ks_ErrorCount :: int64
  ks_RequestCount :: int64
  ks_LastUsed :: time
  ks_LastError :: string
  ks_BlacklistedAt :: time
  ks_Permanent :: bool

record BlacklistEntry =
  be_Key :: key
  be_Reason :: string
  be_BlacklistedAt :: time
  be_Permanent :: bool
  be_ErrorCount :: int64

record KeyStats =
  st_TotalKeys :: int
  st_ActiveKeys :: int
  st_BlacklistedKeys :: int
  st_CurrentIndex :: int
  st_RequestCounts :: "key \<rightharpoonup> int"
  st_ErrorCounts :: "key \<rightharpoonup> int"
  st_LastUsed :: "key \<rightharpoonup> time"
  st_KeyStatus :: "key \<rightharpoonup> KeyStatus"

text \<open>\<open>TavilyUsage\<close> with its two nested structs \<open>Key\<close> and \<open>Account\<close> flattened.\<close>

record TavilyUsage =
  Key_Usage :: int64
  Key_Limit :: int64
  Account_CurrentPlan :: string
  Account_PlanUsage :: int64
  Account_PlanLimit :: int64
  Account_PaygoUsage :: int64
  Account_PaygoLimit :: int64

text \<open>
  The three utilisations are \<open>float64\<close> quotients of two converted integers. They are
  modelled by the exact quotient in \<^typ>\<open>real\<close>: conversion and division round
  monotonically and 0 and 1 are floating-point numbers, so a quotient is below 0, inside
  \<open>[0, 1]\<close> or above 1 in \<open>float64\<close> exactly when the rounded one is on the same side
  (a quotient above 1 may round to 1 only beyond 53 bits, far from the values used below).
\<close>

record RemainingPoints =
  KeyRemaining :: int64
  PlanRemaining :: int64
  PaygoRemaining :: int64
  TotalRemaining :: int64
  KeyUtilization :: real
  PlanUtilization :: real
  PaygoUtilization :: real


section \<open>Package config\<close>

text \<open>
  The fields of \<open>Config\<close> that the key manager and the proxy handler read. \<open>Load\<close> fills
  them from the environment (\<open>os.Getenv\<close> is the function \<open>env\<close>, the empty string
  for an unset variable); \<open>validate\<close> is restricted to its checks on these fields.
\<close>

record Config =
  StartIndex :: int
  BlacklistThreshold :: int
  MaxRetries :: int
  DefaultSelectionStrategy :: string

definition getEnvString :: "(string \<Rightarrow> string) \<Rightarrow> string \<Rightarrow> string \<Rightarrow> string" where
  "getEnvString env k defaultValue = (if env k \<noteq> [] then env k else defaultValue)"

text \<open>
  \<open>strconv.Atoi\<close>: an optional sign, then at least one decimal digit and nothing else, and
  a value that fits 64 bits.
\<close>

definition isDigit :: "char \<Rightarrow> bool" where
  "isDigit c = (c \<in> set ''0123456789'')"

definition digitVal :: "char \<Rightarrow> int" where
  "digitVal c = int (of_char c) - 48"

definition Atoi :: "string \<Rightarrow> int option" where
  "Atoi s =
     (let neg = (s \<noteq> [] \<and> hd s = CHR ''-'');
          ds = (if s \<noteq> [] \<and> (hd s = CHR ''-'' \<or> hd s = CHR ''+'') then tl s else s)
      in if ds = [] \<or> \<not> list_all isDigit ds then None
         else
           (let n = foldl (\<lambda>a c. a * 10 + digitVal c) 0 ds;
                v = (if neg then - n else n)
            in if v < - (2 ^ 63) \<or> 2 ^ 63 - 1 < v then None else Some v))"

definition getEnvInt :: "(string \<Rightarrow> string) \<Rightarrow> string \<Rightarrow> int \<Rightarrow> int" where
  "getEnvInt env k defaultValue =
     (if env k \<noteq> [] then (case Atoi (env k) of Some v \<Rightarrow> v | None \<Rightarrow> defaultValue)
      else defaultValue)"

definition validate :: "Config \<Rightarrow> string option" where
  "validate c =
     (if MaxRetries c < 0 then Some ''MAX_RETRIES must be >= 0''
      else if BlacklistThreshold c \<le> 0 then Some ''BLACKLIST_THRESHOLD must be > 0''
      else None)"


definition Load :: "(string \<Rightarrow> string) \<Rightarrow> string + Config" where
  "Load env =
     (let c = \<lparr>StartIndex = getEnvInt env ''START_INDEX'' 0,
                BlacklistThreshold = getEnvInt env ''BLACKLIST_THRESHOLD'' 1,
                MaxRetries = getEnvInt env ''MAX_RETRIES'' 3,
                DefaultSelectionStrategy =
                  getEnvString env ''DEFAULT_SELECTION_STRATEGY'' ''round_robin''\<rparr>
      in case validate c of
           Some err \<Rightarrow> Inl (''configuration validation failed: '' @ err)
         | None \<Rightarrow> Inr c)"


section \<open>Package repository\<close>

text \<open>
  The table \<open>api_keys\<close> as the list of its rows in \<open>created_at\<close> order, the order
  of every \<open>ORDER BY created_at ASC\<close>. \<open>db_up\<close> is false while the database
  cannot be reached: every statement then returns an error. The time stamps of a row and
  the two statistics tables are written but never read by the functions below.
\<close>

record APIKey =
  ak_ID :: int
  ak_KeyValue :: string
  ak_Name :: string
  ak_Description :: string
  ak_IsActive :: bool
  ak_IsBlacklisted :: bool
  ak_BlacklistedUntil :: "time option"
  ak_BlacklistReason :: string

datatype dberror = ConnectionRefused | DuplicateEntry | NoRows

record KeyRepository =
  db_up :: bool
  api_keys :: "APIKey list"
  auto_increment :: int

definition GetAllActiveKeys :: "time \<Rightarrow> KeyRepository \<Rightarrow> dberror + APIKey list" where
  "GetAllActiveKeys now r =
     (if \<not> db_up r then Inl ConnectionRefused
      else Inr (filter (\<lambda>k. ak_IsActive k \<and>
                  (\<not> ak_IsBlacklisted k \<or>
                   (case ak_BlacklistedUntil k of None \<Rightarrow> False | Some u \<Rightarrow> u < now)))
                (api_keys r)))"

text \<open>
  \<open>key_value\<close> is \<open>UNIQUE\<close>: an insert of a value already there fails with MySQL's
  \<open>Duplicate entry\<close> error, the one the handlers look for in the error text.
\<close>

definition CreateKey :: "KeyRepository \<Rightarrow> string \<Rightarrow> string \<Rightarrow> string \<Rightarrow> (dberror + APIKey) \<times> KeyRepository" where
  "CreateKey r keyValue name description =
     (if \<not> db_up r then (Inl ConnectionRefused, r)
      else if keyValue \<in> set (map ak_KeyValue (api_keys r))
        then (Inl DuplicateEntry, r)
      else
        (let row = \<lparr>ak_ID = auto_increment r, ak_KeyValue = keyValue, ak_Name = name,
                      ak_Description = description, ak_IsActive = True,
                      ak_IsBlacklisted = False, ak_BlacklistedUntil = None,
                      ak_BlacklistReason = []\<rparr>
         in (Inr row, r\<lparr>api_keys := api_keys r @ [row],
                           auto_increment := auto_increment r + 1\<rparr>)))"

definition Repo_BlacklistKey ::
    "KeyRepository \<Rightarrow> string \<Rightarrow> string \<Rightarrow> bool \<Rightarrow> time option \<Rightarrow> dberror option \<times> KeyRepository" where
  "Repo_BlacklistKey r keyValue reason permanent until =
     (if \<not> db_up r then (Some ConnectionRefused, r)
      else if keyValue \<notin> set (map ak_KeyValue (api_keys r))
        then (Some NoRows, r)
      else (None, r\<lparr>api_keys :=
              map (\<lambda>k. if ak_KeyValue k = keyValue
                        then k\<lparr>ak_IsBlacklisted := True, ak_BlacklistedUntil := until,
                               ak_BlacklistReason := reason\<rparr>
                        else k) (api_keys r)\<rparr>))"


section \<open>Package usage: the tracker\<close>

text \<open>
  \<open>usageCache\<close> holds the usage entries that the Redis cache returns at the moment
  (a miss, an expired entry and a failing cache are all \<open>None\<close>). \<open>memoryCache\<close>
  is the \<open>sync.Map\<close> of the tracker as an association list with distinct keys;
  \<open>Range\<close> and the \<open>for ... range\<close> over the map built from it visit the entries
  in the order of the list, which stands for the unspecified order of Go.
  The analytics table of the tracker is written by it and read by no function below.
\<close>

record Tracker =
  usageCache :: "key \<rightharpoonup> TavilyUsage"
  memoryCache :: "(key \<times> TavilyUsage) list"

fun store :: "'k \<Rightarrow> 'v \<Rightarrow> ('k \<times> 'v) list \<Rightarrow> ('k \<times> 'v) list" where
  "store k v [] = [(k, v)]"
| "store k v ((k', v') # xs) = (if k = k' then (k, v) # xs else (k', v') # store k v xs)"

definition NewTracker :: Tracker where
  "NewTracker = \<lparr>usageCache = Map.empty, memoryCache = []\<rparr>"

definition GetUsage :: "Tracker \<Rightarrow> key \<Rightarrow> TavilyUsage option" where
  "GetUsage t k = (case usageCache t k of Some u \<Rightarrow> Some u | None \<Rightarrow> map_of (memoryCache t) k)"

definition GetAllUsage :: "Tracker \<Rightarrow> (key \<times> TavilyUsage) list" where
  "GetAllUsage t = memoryCache t"

definition utilization :: "int64 \<Rightarrow> int64 \<Rightarrow> real" where
  "utilization used limit = (if sint limit > 0 then real_of_int (sint used) / real_of_int (sint limit) else 0)"

definition remainingOf :: "TavilyUsage \<Rightarrow> RemainingPoints" where
  "remainingOf u =
     (let keyRemaining = Key_Limit u - Key_Usage u;
          planRemaining = Account_PlanLimit u - Account_PlanUsage u;
          paygoRemaining = Account_PaygoLimit u - Account_PaygoUsage u;
          totalRemaining = keyRemaining + planRemaining + paygoRemaining
      in \<lparr>KeyRemaining = keyRemaining, PlanRemaining = planRemaining,
          PaygoRemaining = paygoRemaining, TotalRemaining = totalRemaining,
          KeyUtilization = utilization (Key_Usage u) (Key_Limit u),
          PlanUtilization = utilization (Account_PlanUsage u) (Account_PlanLimit u),
          PaygoUtilization = utilization (Account_PaygoUsage u) (Account_PaygoLimit u)\<rparr>)"

definition CalculateRemainingPoints :: "Tracker \<Rightarrow> key \<Rightarrow> RemainingPoints option" where
  "CalculateRemainingPoints t k = map_option remainingOf (GetUsage t k)"

text \<open>
  One pass of \<open>selectPlanFirstKey\<close> over the keys of \<open>allUsage\<close>: \<open>sel\<close> is
  \<open>PlanRemaining\<close> in the first loop and \<open>PaygoRemaining\<close> in the second; the pair is
  the best key so far and its remaining points.
\<close>

fun selectPass :: "Tracker \<Rightarrow> (RemainingPoints \<Rightarrow> int64) \<Rightarrow> key list \<Rightarrow> key \<times> int64 \<Rightarrow> key \<times> int64" where
  "selectPass t sel [] best = best"
| "selectPass t sel (k # ks) (bestKey, most) =
     (case CalculateRemainingPoints t k of
        None \<Rightarrow> selectPass t sel ks (bestKey, most)
      | Some remaining \<Rightarrow>
          if sint (TotalRemaining remaining) \<le> 0 then selectPass t sel ks (bestKey, most)
          else if sint (sel remaining) > sint most then selectPass t sel ks (k, sel remaining)
          else selectPass t sel ks (bestKey, most))"

definition selectPlanFirstKey :: "Tracker \<Rightarrow> (key \<times> TavilyUsage) list \<Rightarrow> key option" where
  "selectPlanFirstKey t allUsage =
     (case selectPass t PlanRemaining (map fst allUsage) ([], - 1) of
        (bestPlanKey, mostPlanRemaining) \<Rightarrow>
          if bestPlanKey \<noteq> [] \<and> sint mostPlanRemaining > 0 then Some bestPlanKey
          else (case selectPass t PaygoRemaining (map fst allUsage) ([], - 1) of
                  (bestPaygoKey, mostPaygoRemaining) \<Rightarrow>
                    if bestPaygoKey \<noteq> [] then Some bestPaygoKey else None))"

definition GetOptimalKey :: "Tracker \<Rightarrow> SelectionStrategy \<Rightarrow> key option" where
  "GetOptimalKey t strategy =
     (let allUsage = GetAllUsage t
      in if length allUsage = 0 then None
         else if strategy = StrategyPlanFirst then selectPlanFirstKey t allUsage
         else None)"

text \<open>
  \<open>UpdateUsage\<close>: \<open>cacheOk\<close> tells whether the write to Redis succeeded. The log
  statement at its end slices \<open>key[:12]\<close> and panics on a shorter key (\<open>False\<close>),
  after both stores.
\<close>

definition UpdateUsage :: "bool \<Rightarrow> key \<Rightarrow> TavilyUsage \<Rightarrow> Tracker \<Rightarrow> bool \<times> Tracker" where
  "UpdateUsage cacheOk k u t =
     (let t1 = t\<lparr>usageCache := (if cacheOk then (usageCache t)(k \<mapsto> u) else usageCache t),
                  memoryCache := store k u (memoryCache t)\<rparr>
      in (12 \<le> length k, t1))"

definition GetRecommendedStrategy :: "Tracker \<Rightarrow> SelectionStrategy" where
  "GetRecommendedStrategy t =
     (let allUsage = GetAllUsage t
      in if length allUsage = 0 then StrategyRoundRobin
         else
           (let totalPlanRemaining =
                  foldl (\<lambda>total k. case CalculateRemainingPoints t k of
                                      None \<Rightarrow> total
                                    | Some remaining \<Rightarrow> total + PlanRemaining remaining)
                        (0 :: int64) (map fst allUsage)
            in if sint totalPlanRemaining > 0 then StrategyPlanFirst else StrategyRoundRobin))"


section \<open>Package keymanager\<close>

text \<open>
  The five \<open>sync.Map\<close>s are partial maps. \<open>requestCounts\<close> and \<open>errorCounts\<close> hold
  pointers to \<open>int64\<close> counters in Go; the model holds the counter itself.
  \<open>keyRepo\<close> is the repository the manager writes blacklistings through to.
\<close>

record Manager =
  keys :: "key list"
  currentIndex :: int64
  keyRepo :: KeyRepository
  blacklist :: "key \<rightharpoonup> BlacklistEntry"
  keyStatus :: "key \<rightharpoonup> KeyStatus"
  requestCounts :: "key \<rightharpoonup> int64"
  errorCounts :: "key \<rightharpoonup> int64"
  lastUsed :: "key \<rightharpoonup> time"
  config :: Config
  usageTracker :: Tracker
  selectionStrategy :: SelectionStrategy
  startTime :: time

text \<open>The result of a call that may return an error or panic.\<close>

datatype 'a res = Ok 'a | Failed TavilyError | Panic

definition freshStatus :: KeyStatus where
  "freshStatus = \<lparr>ks_Active = True, ks_ErrorCount = 0, ks_RequestCount = 0,
                    ks_LastUsed = zeroTime, ks_LastError = [], ks_BlacklistedAt = zeroTime,
                    ks_Permanent = False\<rparr>"

text \<open>The loop body shared by \<open>initializeKeyStatus\<close> and \<open>ResetKeys\<close>.\<close>

definition initKey :: "key \<Rightarrow> Manager \<Rightarrow> Manager" where
  "initKey k m = m\<lparr>keyStatus := (keyStatus m)(k \<mapsto> freshStatus),
                     requestCounts := (requestCounts m)(k \<mapsto> 0),
                     errorCounts := (errorCounts m)(k \<mapsto> 0)\<rparr>"

definition initializeKeyStatus :: "Manager \<Rightarrow> Manager" where
  "initializeKeyStatus m = foldl (\<lambda>m' k. initKey k m') m (keys m)"

definition loadKeys :: "time \<Rightarrow> Manager \<Rightarrow> string + Manager" where
  "loadKeys now m =
     (case GetAllActiveKeys now (keyRepo m) of
        Inl err \<Rightarrow> Inl ''failed to load keys from database''
      | Inr apiKeys \<Rightarrow>
          if length apiKeys = 0 then Inl ''no active API keys found in database''
          else
            (let ks = map ak_KeyValue apiKeys
             in Inr (m\<lparr>keys := ks,
                       currentIndex := word_of_int (go_rem (StartIndex (config m)) (int (length ks)))\<rparr>)))"

definition NewManager :: "Config \<Rightarrow> time \<Rightarrow> KeyRepository \<Rightarrow> string + Manager" where
  "NewManager cfg now repo =
     (let manager = \<lparr>keys = [], currentIndex = 0, keyRepo = repo, blacklist = Map.empty,
                      keyStatus = Map.empty, requestCounts = Map.empty,
                      errorCounts = Map.empty, lastUsed = Map.empty, config = cfg,
                      usageTracker = NewTracker, selectionStrategy = StrategyPlanFirst,
                      startTime = now\<rparr>
      in case loadKeys now manager of
           Inl err \<Rightarrow> Inl (''failed to load keys: '' @ err)
         | Inr manager' \<Rightarrow> Inr (initializeKeyStatus manager'))"

text \<open>The value behind \<open>getRequestCountPtr\<close> and \<open>getErrorCountPtr\<close>: 0 for a key not yet in the map.\<close>

definition getRequestCount :: "Manager \<Rightarrow> key \<Rightarrow> int64" where
  "getRequestCount m k = (case requestCounts m k of Some c \<Rightarrow> c | None \<Rightarrow> 0)"

definition getErrorCount :: "Manager \<Rightarrow> key \<Rightarrow> int64" where
  "getErrorCount m k = (case errorCounts m k of Some c \<Rightarrow> c | None \<Rightarrow> 0)"

definition updateKeyUsage :: "time \<Rightarrow> key \<Rightarrow> Manager \<Rightarrow> Manager" where
  "updateKeyUsage now k m =
     m\<lparr>lastUsed := (lastUsed m)(k \<mapsto> now),
       requestCounts := (requestCounts m)(k \<mapsto> getRequestCount m k + 1),
       keyStatus :=
         (case keyStatus m k of
            None \<Rightarrow> keyStatus m
          | Some status \<Rightarrow>
              (keyStatus m)(k \<mapsto> status\<lparr>ks_LastUsed := now,
                                            ks_RequestCount := ks_RequestCount status + 1\<rparr>))\<rparr>"

text \<open>
  The \<open>for\<close> loop of \<open>getRoundRobinKey\<close>, with the number of iterations left.
  \<open>atomic.AddInt64\<close> returns the incremented cursor, so the key read is the one after the
  cursor. A negative remainder indexes the slice out of range: a panic.
\<close>

fun roundRobinLoop :: "time \<Rightarrow> nat \<Rightarrow> Manager \<Rightarrow> key res \<times> Manager" where
  "roundRobinLoop now 0 m =
     (Failed (NewTavilyError ErrorTypeNoKeysAvailable ''all API keys are blacklisted'' 500), m)"
| "roundRobinLoop now (Suc n) m =
     (let m1 = m\<lparr>currentIndex := currentIndex m + 1\<rparr>;
          index = go_rem (sint (currentIndex m1)) (int (length (keys m)))
      in if index < 0 then (Panic, m1)
         else
           (let k = keys m ! nat index
            in if blacklist m1 k \<noteq> None then roundRobinLoop now n m1
               else (Ok k, updateKeyUsage now k m1)))"

definition getRoundRobinKey :: "time \<Rightarrow> Manager \<Rightarrow> key res \<times> Manager" where
  "getRoundRobinKey now m =
     (let totalKeys = length (keys m)
      in if totalKeys = 0
         then (Failed (NewTavilyError ErrorTypeNoKeysAvailable ''no API keys available'' 500), m)
         else roundRobinLoop now totalKeys m)"

definition GetNextKeyWithStrategy :: "time \<Rightarrow> SelectionStrategy \<Rightarrow> Manager \<Rightarrow> key res \<times> Manager" where
  "GetNextKeyWithStrategy now strategy m =
     (if strategy = StrategyPlanFirst then
        (case GetOptimalKey (usageTracker m) strategy of
           Some k \<Rightarrow>
             if blacklist m k = None then (Ok k, updateKeyUsage now k m)
             else getRoundRobinKey now m
         | None \<Rightarrow> getRoundRobinKey now m)
      else getRoundRobinKey now m)"

definition GetNextKey :: "time \<Rightarrow> Manager \<Rightarrow> key res \<times> Manager" where
  "GetNextKey now m = GetNextKeyWithStrategy now (selectionStrategy m) m"

definition BlacklistKey :: "time \<Rightarrow> key \<Rightarrow> bool \<Rightarrow> Manager \<Rightarrow> Manager" where
  "BlacklistKey now k permanent m =
     (let reason = (if permanent then ''permanent error'' else ''temporary error'');
          until = (if permanent then None else Some (now + 5 * Minute));
          errorCount = getErrorCount m k;
          entry = \<lparr>be_Key = k, be_Reason = reason, be_BlacklistedAt = now,
                   be_Permanent = permanent, be_ErrorCount = errorCount\<rparr>
      in m\<lparr>errorCounts := (errorCounts m)(k \<mapsto> errorCount),
            keyRepo := snd (Repo_BlacklistKey (keyRepo m) k reason permanent until),
            blacklist := (blacklist m)(k \<mapsto> entry),
            keyStatus :=
              (case keyStatus m k of
                 None \<Rightarrow> keyStatus m
               | Some status \<Rightarrow>
                   (keyStatus m)(k \<mapsto> status\<lparr>ks_Active := False, ks_BlacklistedAt := now,
                                                 ks_Permanent := permanent\<rparr>))\<rparr>)"

definition ResetKeys :: "Manager \<Rightarrow> Manager" where
  "ResetKeys m = foldl (\<lambda>m' k. initKey k m') (m\<lparr>blacklist := Map.empty\<rparr>) (keys m)"

text \<open>
  \<open>RecordError\<close>: the handler passes a \<open>*TavilyError\<close>, so the type assertion succeeds.
  \<open>err.Error()\<close> may panic, after both error counters were incremented.
\<close>

definition RecordError :: "time \<Rightarrow> key \<Rightarrow> TavilyError \<Rightarrow> Manager \<Rightarrow> unit res \<times> Manager" where
  "RecordError now k err m =
     (let m1 = m\<lparr>errorCounts := (errorCounts m)(k \<mapsto> getErrorCount m k + 1)\<rparr>;
          check = (\<lambda>m'. if sint (getErrorCount m' k) \<ge> BlacklistThreshold (config m')
                         then (Ok (), BlacklistKey now k (IsPermanent err) m')
                         else (Ok (), m'))
      in case keyStatus m1 k of
           None \<Rightarrow> check m1
         | Some status \<Rightarrow>
             (let status1 = status\<lparr>ks_ErrorCount := ks_ErrorCount status + 1\<rparr>
              in case Error err of
                   None \<Rightarrow> (Panic, m1\<lparr>keyStatus := (keyStatus m1)(k \<mapsto> status1)\<rparr>)
                 | Some text \<Rightarrow>
                     check (m1\<lparr>keyStatus := (keyStatus m1)(k \<mapsto> status1\<lparr>ks_LastError := text\<rparr>)\<rparr>)))"

text \<open>The entries that the loop of \<open>GetStats\<close> over \<open>m.keys\<close> copies from a map.\<close>

definition onKeys :: "key list \<Rightarrow> (key \<rightharpoonup> 'a) \<Rightarrow> (key \<rightharpoonup> 'a)" where
  "onKeys ks f = (\<lambda>k. if k \<in> set ks then f k else None)"

text \<open>\<open>GetStats\<close>: \<open>None\<close> is the panic of \<open>%\<close> by zero.\<close>

definition GetStats :: "Manager \<Rightarrow> KeyStats option" where
  "GetStats m =
     (let totalKeys = int (length (keys m))
      in if totalKeys = 0 then None
         else
           (let activeKeys = length (filter (\<lambda>k. case keyStatus m k of
                                               Some status \<Rightarrow> ks_Active status | None \<Rightarrow> False) (keys m));
                blacklistedKeys = length (filter (\<lambda>k. case keyStatus m k of
                                               Some status \<Rightarrow> \<not> ks_Active status | None \<Rightarrow> False) (keys m))
            in Some \<lparr>st_TotalKeys = totalKeys,
                      st_ActiveKeys = int activeKeys,
                      st_BlacklistedKeys = int blacklistedKeys,
                      st_CurrentIndex = go_rem (sint (currentIndex m)) totalKeys,
                      st_RequestCounts = onKeys (keys m) (\<lambda>k. map_option sint (requestCounts m k)),
                      st_ErrorCounts = onKeys (keys m) (\<lambda>k. map_option sint (errorCounts m k)),
                      st_LastUsed = onKeys (keys m) (lastUsed m),
                      st_KeyStatus = onKeys (keys m) (keyStatus m)\<rparr>))"

definition SetSelectionStrategy :: "SelectionStrategy \<Rightarrow> Manager \<Rightarrow> Manager" where
  "SetSelectionStrategy strategy m = m\<lparr>selectionStrategy := strategy\<rparr>"

definition GetSelectionStrategy :: "Manager \<Rightarrow> SelectionStrategy" where
  "GetSelectionStrategy m = selectionStrategy m"


section \<open>Package handler\<close>

subsection \<open>The proxy pipeline\<close>

text \<open>
  What one upstream attempt meets: \<open>http.NewRequestWithContext\<close> fails, the transport
  fails with an error text, or the upstream answers with a status and a body.
\<close>

datatype upstream = BuildError | TransportError string | Response int string

definition makeRequest :: "upstream \<Rightarrow> key \<Rightarrow> TavilyError + response" where
  "makeRequest u apiKey =
     (case u of
        BuildError \<Rightarrow> Inl (NewTavilyError ErrorTypeInternalError ''Failed to create request'' 500)
      | TransportError e \<Rightarrow>
          Inl (NewTavilyErrorWithKey ErrorTypeNetworkError (''Network error: '' @ e) 500 apiKey)
      | Response statusCode body \<Rightarrow>
          if statusCode \<ge> 400 then Inl (ParseHTTPError statusCode body apiKey)
          else Inr (Plain statusCode body))"

text \<open>
  The \<open>return\<close> that ended \<open>proxyTavilyRequest\<close>, what it wrote to the client, the key
  of every upstream attempt and the classified error of every failed attempt, both in
  order, and the key manager afterwards. \<open>Panicked\<close> is a run-time panic, which the
  recovery middleware answers: \<open>apiKey[:12]\<close> in the two log statements panics on a key
  shorter than twelve bytes (in the success branch after the response was copied).
  The handler's own request statistics are left out.
\<close>

datatype exit = BodyUnreadable | NoKeyAvailable | Success | AllRetriesFailed | Panicked

record ProxyResult =
  pr_exit :: exit
  pr_written :: "response option"
  pr_attempts :: "key list"
  pr_errors :: "TavilyError list"
  pr_manager :: Manager

text \<open>The code after the loop.\<close>

definition allRetriesFailed :: "TavilyError option \<Rightarrow> response" where
  "allRetriesFailed lastErr =
     (case lastErr of
        Some tavilyErr \<Rightarrow> http_Error (te_Message tavilyErr) (te_StatusCode tavilyErr)
      | None \<Rightarrow> http_Error ''Request failed after all retries'' 500)"

text \<open>
  The retry loop from iteration \<open>attempt\<close> on. \<open>clock attempt\<close> is the time of that
  iteration and \<open>up attempt apiKey\<close> what the upstream call of that iteration meets.
  \<open>attempt\<close> is an unbounded integer: \<open>attempt++\<close> does not wrap for any
  \<open>MaxRetries\<close> below \<open>2^63 - 1\<close>.
\<close>

function retryLoop ::
    "Config \<Rightarrow> (int \<Rightarrow> time) \<Rightarrow> (int \<Rightarrow> key \<Rightarrow> upstream) \<Rightarrow> int \<Rightarrow> TavilyError option \<Rightarrow>
     key list \<Rightarrow> TavilyError list \<Rightarrow> Manager \<Rightarrow> ProxyResult" where
  "retryLoop cfg clock up attempt lastErr used errs m =
     (if attempt \<le> MaxRetries cfg then
        (case GetNextKey (clock attempt) m of
           (Failed e, m1) \<Rightarrow>
             \<lparr>pr_exit = NoKeyAvailable,
              pr_written = Some (http_Error ''No API keys available'' 503),
              pr_attempts = used, pr_errors = errs, pr_manager = m1\<rparr>
         | (Panic, m1) \<Rightarrow>
             \<lparr>pr_exit = Panicked, pr_written = None,
              pr_attempts = used, pr_errors = errs, pr_manager = m1\<rparr>
         | (Ok apiKey, m1) \<Rightarrow>
             (case makeRequest (up attempt apiKey) apiKey of
                Inl err \<Rightarrow>
                  (case RecordError (clock attempt) apiKey err m1 of
                     (Panic, m2) \<Rightarrow>
                       \<lparr>pr_exit = Panicked, pr_written = None,
                        pr_attempts = used @ [apiKey], pr_errors = errs @ [err],
                        pr_manager = m2\<rparr>
                   | (_, m2) \<Rightarrow>
                       if \<not> IsRetryable err then
                         \<lparr>pr_exit = AllRetriesFailed,
                          pr_written = Some (allRetriesFailed (Some err)),
                          pr_attempts = used @ [apiKey], pr_errors = errs @ [err],
                          pr_manager = m2\<rparr>
                       else if length apiKey < 12 then
                         \<lparr>pr_exit = Panicked, pr_written = None,
                          pr_attempts = used @ [apiKey], pr_errors = errs @ [err],
                          pr_manager = m2\<rparr>
                       else retryLoop cfg clock up (attempt + 1) (Some err)
                              (used @ [apiKey]) (errs @ [err]) m2)
              | Inr resp \<Rightarrow>
                  \<lparr>pr_exit = (if length apiKey < 12 then Panicked else Success),
                   pr_written = Some resp,
                   pr_attempts = used @ [apiKey], pr_errors = errs, pr_manager = m1\<rparr>))
      else
        \<lparr>pr_exit = AllRetriesFailed, pr_written = Some (allRetriesFailed lastErr),
         pr_attempts = used, pr_errors = errs, pr_manager = m\<rparr>)"
  by pat_completeness auto
termination
  by (relation "measure (\<lambda>(cfg, clock, up, attempt, rest). nat (MaxRetries cfg + 1 - attempt))") auto

declare retryLoop.simps [simp del]

text \<open>\<open>body\<close> is \<open>None\<close> when reading the request body failed.\<close>

definition proxyTavilyRequest ::
    "Config \<Rightarrow> (int \<Rightarrow> time) \<Rightarrow> (int \<Rightarrow> key \<Rightarrow> upstream) \<Rightarrow> string option \<Rightarrow> Manager \<Rightarrow> ProxyResult" where
  "proxyTavilyRequest cfg clock up body m =
     (case body of
        None \<Rightarrow>
          \<lparr>pr_exit = BodyUnreadable,
           pr_written = Some (http_Error ''Failed to read request body'' 400),
           pr_attempts = [], pr_errors = [], pr_manager = m\<rparr>
      | Some b \<Rightarrow> retryLoop cfg clock up 0 None [] [] m)"


subsection \<open>The strategy endpoint\<close>

text \<open>
  \<open>decoded\<close> is the \<open>strategy\<close> field of the decoded JSON body (empty when the field
  is absent), \<open>None\<close> when the body does not decode.
\<close>

definition getStrategyHandler :: "Manager \<Rightarrow> response" where
  "getStrategyHandler m =
     JSON 200 (JObject
       [(''current_strategy'', JString (GetSelectionStrategy m)),
        (''recommended_strategy'', JString (GetRecommendedStrategy (usageTracker m))),
        (''available_strategies'', JArray [JString StrategyPlanFirst, JString StrategyRoundRobin])])"

definition setStrategyHandler :: "string option \<Rightarrow> Manager \<Rightarrow> response \<times> Manager" where
  "setStrategyHandler decoded m =
     (case decoded of
        None \<Rightarrow> (http_Error ''Invalid request body'' 400, m)
      | Some strategy \<Rightarrow>
          if \<not> (strategy = StrategyPlanFirst \<or> strategy = StrategyRoundRobin)
          then (http_Error ''Invalid strategy'' 400, m)
          else (JSON 200 (JObject [(''status'', JString ''success''),
                                   (''message'', JString ''Selection strategy updated''),
                                   (''strategy'', JString strategy)]),
                SetSelectionStrategy strategy m))"

definition StrategyHandler :: "string \<Rightarrow> string option \<Rightarrow> Manager \<Rightarrow> response \<times> Manager" where
  "StrategyHandler method decoded m =
     (if method = ''GET'' then (getStrategyHandler m, m)
      else if method = ''POST'' then setStrategyHandler decoded m
      else (http_Error ''Method not allowed'' 405, m))"

text \<open>The field \<open>current_strategy\<close> of a response of \<open>GET /strategy\<close>.\<close>

definition current_strategy :: "response \<Rightarrow> json option" where
  "current_strategy r =
     (case r of JSON code (JObject members) \<Rightarrow> map_of members ''current_strategy'' | _ \<Rightarrow> None)"


subsection \<open>Adding and importing keys\<close>

text \<open>
  A handler that panics is answered by the recovery middleware (\<open>None\<close>); what it wrote
  to the repository before stays.
\<close>

record addKeyRequest =
  req_Key :: string
  req_Name :: string
  req_Description :: string

definition addKeyHandler :: "addKeyRequest option \<Rightarrow> KeyRepository \<Rightarrow> response option \<times> KeyRepository" where
  "addKeyHandler decoded r =
     (case decoded of
        None \<Rightarrow> (Some (http_Error ''Invalid request body'' 400), r)
      | Some request \<Rightarrow>
          if \<not> HasPrefix (req_Key request) ''tvly-''
          then (Some (http_Error (''Invalid key format: key must start with '' @ [CHR 0x27]
                                  @ ''tvly-'' @ [CHR 0x27]) 400), r)
          else if req_Key request = [] then (Some (http_Error ''Key is required'' 400), r)
          else
            (let name = (if req_Name request = [] then ''API Key'' else req_Name request)
             in case CreateKey r (req_Key request) name (req_Description request) of
                  (Inl err, r1) \<Rightarrow>
                    if err = DuplicateEntry then (Some (http_Error ''Key already exists'' 409), r1)
                    else (Some (http_Error ''Failed to create key'' 500), r1)
                | (Inr createdKey, r1) \<Rightarrow>
                    if length (ak_KeyValue createdKey) < 12 then (None, r1)
                    else
                      (Some (JSON 201 (JObject
                         [(''status'', JString ''success''),
                          (''message'', JString ''API key added successfully''),
                          (''key'', JObject
                             [(''id'', JInt (ak_ID createdKey)),
                              (''name'', JString (ak_Name createdKey)),
                              (''description'', JString (ak_Description createdKey)),
                              (''key_preview'',
                                 JString (take 12 (ak_KeyValue createdKey) @ ''...''))])])),
                       r1)))"

text \<open>
  \<open>bufio.Scanner\<close> with \<open>ScanLines\<close>: the lines of the text without their newline
  and without one trailing carriage return; an empty rest yields no line. A line of
  \<open>MaxScanTokenSize\<close> bytes or more does not fit the buffer: \<open>Scan\<close> returns false and
  the loop ends. The first argument is the current line, reversed.
\<close>

definition MaxScanTokenSize :: nat where
  "MaxScanTokenSize = 64 * 1024"

definition dropCR :: "string \<Rightarrow> string" where
  "dropCR data = (if data \<noteq> [] \<and> last data = CHR 0x0D then butlast data else data)"

fun scanLines :: "string \<Rightarrow> string \<Rightarrow> string list" where
  "scanLines acc [] =
     (if acc = [] \<or> MaxScanTokenSize \<le> length acc then [] else [dropCR (rev acc)])"
| "scanLines acc (c # cs) =
     (if c = CHR 0x0A
      then (if MaxScanTokenSize \<le> length acc then [] else dropCR (rev acc) # scanLines [] cs)
      else scanLines (c # acc) cs)"

text \<open>
  \<open>strings.TrimSpace\<close> removes the leading and trailing runes with \<open>unicode.IsSpace\<close>.
  Each such rune has one UTF-8 encoding, a start byte followed by continuation bytes, so
  the runes decoded from either end are white space exactly as long as the string begins,
  or ends, with one of these byte sequences.
\<close>

definition spaceRunes :: "string list" where
  "spaceRunes =
     [[CHR 0x09], [CHR 0x0A], [CHR 0x0B], [CHR 0x0C], [CHR 0x0D], [CHR 0x20],
      [CHR 0xC2, CHR 0x85], [CHR 0xC2, CHR 0xA0], [CHR 0xE1, CHR 0x9A, CHR 0x80],
      [CHR 0xE2, CHR 0x80, CHR 0x80], [CHR 0xE2, CHR 0x80, CHR 0x81],
      [CHR 0xE2, CHR 0x80, CHR 0x82], [CHR 0xE2, CHR 0x80, CHR 0x83],
      [CHR 0xE2, CHR 0x80, CHR 0x84], [CHR 0xE2, CHR 0x80, CHR 0x85],
      [CHR 0xE2, CHR 0x80, CHR 0x86], [CHR 0xE2, CHR 0x80, CHR 0x87],
      [CHR 0xE2, CHR 0x80, CHR 0x88], [CHR 0xE2, CHR 0x80, CHR 0x89],
      [CHR 0xE2, CHR 0x80, CHR 0x8A], [CHR 0xE2, CHR 0x80, CHR 0xA8],
      [CHR 0xE2, CHR 0x80, CHR 0xA9], [CHR 0xE2, CHR 0x80, CHR 0xAF],
      [CHR 0xE2, CHR 0x81, CHR 0x9F], [CHR 0xE3, CHR 0x80, CHR 0x80]]"

text \<open>The length of the white-space rune among \<open>ws\<close> that \<open>s\<close> begins with, 0 if none.\<close>

fun spaceLen :: "string list \<Rightarrow> string \<Rightarrow> nat" where
  "spaceLen [] s = 0"
| "spaceLen (w # ws) s =
     (if w \<noteq> [] \<and> length w \<le> length s \<and> take (length w) s = w then length w
      else spaceLen ws s)"

text \<open>Dropping white space from the left, with the length of the string as the bound of the loop.\<close>

fun trimLoop :: "string list \<Rightarrow> nat \<Rightarrow> string \<Rightarrow> string" where
  "trimLoop ws 0 s = s"
| "trimLoop ws (Suc n) s =
     (if spaceLen ws s = 0 then s else trimLoop ws n (drop (spaceLen ws s) s))"

definition TrimLeft :: "string \<Rightarrow> string" where
  "TrimLeft s = trimLoop spaceRunes (length s) s"

definition TrimRight :: "string \<Rightarrow> string" where
  "TrimRight s = rev (trimLoop (map rev spaceRunes) (length s) (rev s))"

definition TrimSpace :: "string \<Rightarrow> string" where
  "TrimSpace s = TrimRight (TrimLeft s)"

text \<open>The body of the loop of \<open>parseKeysFromText\<close>, over the scanned lines.\<close>

fun parseLines :: "string list \<Rightarrow> string list" where
  "parseLines [] = []"
| "parseLines (l # ls) =
     (let line = TrimSpace l
      in if line = [] \<or> HasPrefix line ''#'' then parseLines ls
         else if \<not> HasPrefix line ''tvly-'' then parseLines ls
         else line # parseLines ls)"

definition parseKeysFromText :: "string \<Rightarrow> string list" where
  "parseKeysFromText text = parseLines (scanLines [] text)"

text \<open>
  \<open>importKeysToDatabase\<close> from key number \<open>i\<close> on, with the three counters. Each of
  its log statements slices \<open>key[:12]\<close>: a shorter key panics (\<open>None\<close>) after
  \<open>CreateKey\<close> returned. The list of error texts in the result is left out.
\<close>

fun importLoop ::
    "string \<Rightarrow> nat \<Rightarrow> string list \<Rightarrow> int \<times> int \<times> int \<Rightarrow> KeyRepository \<Rightarrow>
     (int \<times> int \<times> int) option \<times> KeyRepository" where
  "importLoop namePrefix i [] counts r = (Some counts, r)"
| "importLoop namePrefix i (k # ks) (imported, skipped, errors) r =
     (case CreateKey r k (namePrefix @ '' '' @ fmt_d (int i + 1)) ''Imported via web interface'' of
        (res, r1) \<Rightarrow>
          if length k < 12 then (None, r1)
          else
            (case res of
               Inl err \<Rightarrow>
                 if err = DuplicateEntry
                 then importLoop namePrefix (Suc i) ks (imported, skipped + 1, errors) r1
                 else importLoop namePrefix (Suc i) ks (imported, skipped, errors + 1) r1
             | Inr created \<Rightarrow>
                 importLoop namePrefix (Suc i) ks (imported + 1, skipped, errors) r1))"

definition importKeysToDatabase ::
    "string list \<Rightarrow> string \<Rightarrow> KeyRepository \<Rightarrow> json option \<times> KeyRepository" where
  "importKeysToDatabase ks namePrefix r =
     (case importLoop (if namePrefix = [] then ''Imported Key'' else namePrefix) 0 ks (0, 0, 0) r of
        (None, r1) \<Rightarrow> (None, r1)
      | (Some (imported, skipped, errors), r1) \<Rightarrow>
          (Some (JObject
             [(''status'', JString (if imported = 0 then ''warning'' else ''success'')),
              (''total_keys'', JInt (int (length ks))),
              (''imported_count'', JInt imported),
              (''skipped_count'', JInt skipped),
              (''error_count'', JInt errors),
              (''message'',
                 JString (if imported = 0 then ''No new keys were imported''
                          else ''Successfully imported '' @ fmt_d imported @ '' keys''))]),
           r1))"

text \<open>\<open>decoded\<close> is the pair of the fields \<open>keys\<close> and \<open>prefix\<close> of the JSON body.\<close>

definition BulkImportKeysHandler ::
    "(string \<times> string) option \<Rightarrow> KeyRepository \<Rightarrow> response option \<times> KeyRepository" where
  "BulkImportKeysHandler decoded r =
     (case decoded of
        None \<Rightarrow> (Some (http_Error ''Invalid request body'' 400), r)
      | Some (keysText, namePrefix) \<Rightarrow>
          if keysText = [] then (Some (http_Error ''Keys text is required'' 400), r)
          else
            (let ks = parseKeysFromText keysText
             in if length ks = 0
                then (Some (http_Error ''No valid keys found in the provided text'' 400), r)
                else (case importKeysToDatabase ks namePrefix r of
                        (None, r1) \<Rightarrow> (None, r1)
                      | (Some results, r1) \<Rightarrow> (Some (JSON 200 results), r1))))"


section \<open>Runs and scenarios\<close>

text \<open>An empty, reachable repository, and the one that results from adding keys in order.\<close>

definition emptyRepo :: KeyRepository where
  "emptyRepo = \<lparr>db_up = True, api_keys = [], auto_increment = 1\<rparr>"

definition repoOf :: "key list \<Rightarrow> KeyRepository" where
  "repoOf ks = foldl (\<lambda>r k. snd (CreateKey r k ''API Key'' [])) emptyRepo ks"

text \<open>Sequential calls of \<open>GetNextKey\<close>, one at each of the given times.\<close>

fun sequentialSelections :: "time list \<Rightarrow> Manager \<Rightarrow> key res list \<times> Manager" where
  "sequentialSelections [] m = ([], m)"
| "sequentialSelections (now # ts) m =
     (case GetNextKey now m of
        (r, m1) \<Rightarrow> (case sequentialSelections ts m1 of (rs, m2) \<Rightarrow> (r # rs, m2)))"

text \<open>
  The operations of the key manager and its tracker that change state, as the handlers
  and the management endpoints call them.
\<close>

datatype operation =
    OpGetNextKey time
  | OpGetNextKeyWithStrategy time SelectionStrategy
  | OpRecordError time key TavilyError
  | OpBlacklistKey time key bool
  | OpResetKeys
  | OpSetSelectionStrategy SelectionStrategy
  | OpUpdateUsage bool key TavilyUsage

fun apply_op :: "operation \<Rightarrow> Manager \<Rightarrow> Manager" where
  "apply_op (OpGetNextKey now) m = snd (GetNextKey now m)"
| "apply_op (OpGetNextKeyWithStrategy now strategy) m = snd (GetNextKeyWithStrategy now strategy m)"
| "apply_op (OpRecordError now k err) m = snd (RecordError now k err m)"
| "apply_op (OpBlacklistKey now k permanent) m = BlacklistKey now k permanent m"
| "apply_op OpResetKeys m = ResetKeys m"
| "apply_op (OpSetSelectionStrategy strategy) m = SetSelectionStrategy strategy m"
| "apply_op (OpUpdateUsage cacheOk k u) m =
     m\<lparr>usageTracker := snd (UpdateUsage cacheOk k u (usageTracker m))\<rparr>"

definition apply_ops :: "operation list \<Rightarrow> Manager \<Rightarrow> Manager" where
  "apply_ops ops m = foldl (\<lambda>m' operation. apply_op operation m') m ops"

text \<open>
  The steps by which requests, also concurrent ones, move the counters. The second
  component is the list of keys in flight: selected by \<open>GetNextKey\<close> for an attempt whose
  outcome is not recorded yet. The proxy handler records an error only for the key its
  attempt selected, once; a \<open>Fail\<close> for a key not in flight is no step of any request
  and changes nothing. \<open>RecordRequest\<close> is a direct call of \<open>updateKeyUsage\<close>, and
  \<open>UsageUpdate\<close> is the refresh of the usage snapshots, which steers selection.
\<close>

datatype event =
    Select time
  | RecordRequest time key
  | Succeed key
  | Fail time key TavilyError
  | UsageUpdate bool key TavilyUsage

fun step :: "event \<Rightarrow> Manager \<times> key list \<Rightarrow> Manager \<times> key list" where
  "step (Select now) (m, inflight) =
     (case GetNextKey now m of
        (Ok k, m1) \<Rightarrow> (m1, k # inflight)
      | (_, m1) \<Rightarrow> (m1, inflight))"
| "step (RecordRequest now k) (m, inflight) = (updateKeyUsage now k m, inflight)"
| "step (Succeed k) (m, inflight) = (m, remove1 k inflight)"
| "step (Fail now k err) (m, inflight) =
     (if k \<in> set inflight then (snd (RecordError now k err m), remove1 k inflight)
      else (m, inflight))"
| "step (UsageUpdate cacheOk k u) (m, inflight) =
     (m\<lparr>usageTracker := snd (UpdateUsage cacheOk k u (usageTracker m))\<rparr>, inflight)"

definition run :: "event list \<Rightarrow> Manager \<times> key list \<Rightarrow> Manager \<times> key list" where
  "run evs s = foldl (\<lambda>s' e. step e s') s evs"

text \<open>The environment that sets no variable, and one that sets the default strategy.\<close>

definition noEnv :: "string \<Rightarrow> string" where
  "noEnv k = []"

definition roundRobinEnv :: "string \<Rightarrow> string" where
  "roundRobinEnv k = (if k = ''DEFAULT_SELECTION_STRATEGY'' then ''round_robin'' else [])"

text \<open>The configuration of the rotation scenario: the defaults, with start index 0.\<close>

definition defaultConfig :: Config where
  "defaultConfig = \<lparr>StartIndex = 0, BlacklistThreshold = 1, MaxRetries = 3,
                     DefaultSelectionStrategy = ''round_robin''\<rparr>"


text \<open>
  The rotation scenario: keys \<open>K1\<close>, \<open>K2\<close>, \<open>K3\<close> loaded in that order, strategy
  \<open>round_robin\<close>, one selection at each of the given times; the result is the sequence of
  selections and the request counter of each key afterwards.
\<close>

definition rotationScenario :: "time list \<Rightarrow> string + key res list \<times> int list" where
  "rotationScenario ts =
     (case NewManager defaultConfig 0 (repoOf [''K1'', ''K2'', ''K3'']) of
        Inl err \<Rightarrow> Inl err
      | Inr m \<Rightarrow>
          (case sequentialSelections ts (SetSelectionStrategy StrategyRoundRobin m) of
             (rs, m') \<Rightarrow>
               Inr (rs, map (\<lambda>k. sint (getRequestCount m' k)) [''K1'', ''K2'', ''K3''])))"

text \<open>A manager started on the given keys with the default configuration.\<close>

definition startedManager :: "key list \<Rightarrow> Manager" where
  "startedManager ks = projr (NewManager defaultConfig 0 (repoOf ks))"

text \<open>A usage snapshot of a key that has used 150 of its 100 points.\<close>

definition overUsage :: TavilyUsage where
  "overUsage = \<lparr>Key_Usage = 150, Key_Limit = 100, Account_CurrentPlan = ''Researcher'',
                 Account_PlanUsage = 150, Account_PlanLimit = 100,
                 Account_PaygoUsage = 150, Account_PaygoLimit = 100\<rparr>"

text \<open>An upstream on which every attempt is answered with status 500 and an empty body.\<close>

definition always500 :: "int \<Rightarrow> key \<Rightarrow> upstream" where
  "always500 attempt k = Response 500 []"

text \<open>A usage snapshot within its limits.\<close>

definition withinUsage :: TavilyUsage where
  "withinUsage = \<lparr>Key_Usage = 40, Key_Limit = 100, Account_CurrentPlan = ''Researcher'',
                   Account_PlanUsage = 250, Account_PlanLimit = 1000,
                   Account_PaygoUsage = 0, Account_PaygoLimit = 500\<rparr>"

text \<open>
  A text of five lines: a key ended by carriage return and newline, a comment, an empty
  line, a key inside blanks, a line without the prefix, and a last key without newline.
\<close>

definition sampleKeysText :: string where
  "sampleKeysText =
     ''tvly-key-0001'' @ [CHR 0x0D, CHR 0x0A] @ ''# comment'' @ [CHR 0x0A, CHR 0x0A]
     @ ''  tvly-key-0002 '' @ [CHR 0x0A] @ ''sk-key-0003'' @ [CHR 0x0A] @ ''tvly-key-0004''"

definition sampleRequest :: addKeyRequest where
  "sampleRequest = \<lparr>req_Key = ''sk-key-0003'', req_Name = ''mine'', req_Description = []\<rparr>"

text \<open>
  Scenarios of the proxy pipeline. \<open>attemptClock\<close> is a clock that advances with the
  attempts. \<open>patientConfig\<close> has threshold 5 and two retries. \<open>blacklistingRun\<close> is a
  request on two keys under the default configuration (threshold 1, three retries) with an
  upstream that always answers 500; \<open>exhaustingRun\<close> is the same request on one key under
  \<open>patientConfig\<close>.
\<close>

definition attemptClock :: "int \<Rightarrow> time" where
  "attemptClock attempt = 1000 + attempt"

definition patientConfig :: Config where
  "patientConfig = \<lparr>StartIndex = 0, BlacklistThreshold = 5, MaxRetries = 2,
                     DefaultSelectionStrategy = ''round_robin''\<rparr>"

definition startedWith :: "Config \<Rightarrow> key list \<Rightarrow> Manager" where
  "startedWith cfg ks = projr (NewManager cfg 0 (repoOf ks))"

definition blacklistingRun :: ProxyResult where
  "blacklistingRun =
     proxyTavilyRequest defaultConfig attemptClock always500 (Some [])
       (startedWith defaultConfig [''tvly-key-0001'', ''tvly-key-0002''])"

definition exhaustingRun :: ProxyResult where
  "exhaustingRun =
     proxyTavilyRequest patientConfig attemptClock always500 (Some [])
       (startedWith patientConfig [''tvly-key-0001''])"

text \<open>
  The invariant of the counters after \<open>n\<close> steps: for every key, the error counter is not
  negative, the error counter plus the attempts of the key in flight is at most the
  request counter, and the request counter is at most \<open>n\<close>.
\<close>

definition countersInv :: "nat \<Rightarrow> Manager \<times> key list \<Rightarrow> bool" where
  "countersInv n s =
     (\<forall>k. 0 \<le> sint (getErrorCount (fst s) k)
          \<and> sint (getErrorCount (fst s) k) + int (count_list (snd s) k)
              \<le> sint (getRequestCount (fst s) k)
          \<and> sint (getRequestCount (fst s) k) \<le> int n)"

text \<open>A run of two requests on two keys: the first attempt fails with 500, the others succeed.\<close>

definition sampleEvents :: "event list" where
  "sampleEvents =
     [Select 1, Fail 2 ''tvly-key-0002'' (ParseHTTPError 500 [] ''tvly-key-0002''),
      Select 3, Succeed ''tvly-key-0001'', Select 4, Succeed ''tvly-key-0001'']"

text \<open>
  What a selection does to the counters: it returns a key and counts one request for it,
  or it returns no key and leaves the request counters; the error counters stay.
\<close>

definition selected :: "key res \<times> Manager \<Rightarrow> Manager \<Rightarrow> bool" where
  "selected res m =
     ((\<exists>k. fst res = Ok k
           \<and> (\<forall>k'. getRequestCount (snd res) k' =
                      (if k' = k then getRequestCount m k + 1 else getRequestCount m k'))
           \<and> (\<forall>k'. getErrorCount (snd res) k' = getErrorCount m k'))
      \<or> ((\<forall>k. fst res \<noteq> Ok k)
           \<and> (\<forall>k'. getRequestCount (snd res) k' = getRequestCount m k')
           \<and> (\<forall>k'. getErrorCount (snd res) k' = getErrorCount m k')))"


section \<open>Properties\<close>

subsection \<open>Unfolding the model\<close>

lemmas err_defs = flags_def ParseHTTPError_def statusSwitch_def NewTavilyErrorWithKey_def
  NewTavilyError_def IsPermanent_def IsRetryable_def

lemmas start_defs = NewManager_def loadKeys_def GetAllActiveKeys_def repoOf_def emptyRepo_def
  CreateKey_def defaultConfig_def initializeKeyStatus_def initKey_def NewTracker_def Let_def

lemmas select_defs = GetNextKey_def GetNextKeyWithStrategy_def StrategyRoundRobin_def
  StrategyPlanFirst_def getRoundRobinKey_def GetOptimalKey_def GetAllUsage_def
  updateKeyUsage_def getRequestCount_def go_rem_def


subsection \<open>Error taxonomy\<close>

text \<open>
  C3. Classification gives every upstream outcome the kind and the flags of the taxonomy
  table, written \<open>(kind, permanent, retryable)\<close>: \<open>ParseHTTPError\<close> on each categorised
  status, the constructors on the kinds that no status maps to, and \<open>internal_error\<close>,
  not permanent and retryable, on every other status.
\<close>

theorem error_taxonomy:
  "flags (ParseHTTPError 401 body k) = (ErrorTypeUnauthorized, True, True)
   \<and> flags (ParseHTTPError 403 body k) = (ErrorTypeForbidden, True, True)
   \<and> flags (NewTavilyErrorWithKey ErrorTypeInvalidKey msg sc k) = (ErrorTypeInvalidKey, True, True)
   \<and> flags (ParseHTTPError 404 body k) = (ErrorTypeNotFound, False, False)
   \<and> flags (ParseHTTPError 400 body k) = (ErrorTypeBadRequest, False, False)
   \<and> flags (ParseHTTPError 429 body k) = (ErrorTypeRateLimit, False, True)
   \<and> flags (ParseHTTPError 432 body k) = (ErrorTypeQuotaExceeded, False, True)
   \<and> flags (ParseHTTPError 433 body k) = (ErrorTypeQuotaExceeded, False, True)
   \<and> flags (ParseHTTPError 500 body k) = (ErrorTypeServerError, False, True)
   \<and> flags (ParseHTTPError 502 body k) = (ErrorTypeServerError, False, True)
   \<and> flags (ParseHTTPError 503 body k) = (ErrorTypeServerError, False, True)
   \<and> flags (ParseHTTPError 504 body k) = (ErrorTypeServerError, False, True)
   \<and> flags (NewTavilyErrorWithKey ErrorTypeTimeout msg sc k) = (ErrorTypeTimeout, False, True)
   \<and> flags (NewTavilyErrorWithKey ErrorTypeNetworkError msg sc k) = (ErrorTypeNetworkError, False, True)
   \<and> flags (NewTavilyError ErrorTypeNoKeysAvailable msg sc) = (ErrorTypeNoKeysAvailable, False, False)
   \<and> (sc \<notin> set categorised \<longrightarrow>
        flags (ParseHTTPError sc body k) = (ErrorTypeInternalError, False, True))"
  by (simp add: err_defs categorised_def)

theorem error_taxonomy_witness:
  "(418 :: int) \<notin> set categorised
   \<and> flags (ParseHTTPError 418 ''teapot'' ''tvly-key-0001'') = (ErrorTypeInternalError, False, True)
   \<and> te_Message (ParseHTTPError 418 ''teapot'' ''tvly-key-0001'') = ''HTTP 418 error: teapot''"
  using error_taxonomy [of "''teapot''" "''tvly-key-0001''" "[]" 418]
  by (simp add: categorised_def err_defs fmt_d_def digits.simps)


subsection \<open>Rotation\<close>

text \<open>
  C2, as the code has it. With keys \<open>K1\<close>, \<open>K2\<close>, \<open>K3\<close> loaded in that order, strategy
  \<open>round_robin\<close>, start index 0 and no errors, six sequential selections return
  \<open>K2, K3, K1, K2, K3, K1\<close>: the cursor starts at 0 and is advanced before the read, so
  the first key read is the one at index 1. Afterwards each request counter is 2.
\<close>

theorem rotation_sequence:
  "rotationScenario [t1, t2, t3, t4, t5, t6] =
     Inr ([Ok ''K2'', Ok ''K3'', Ok ''K1'', Ok ''K2'', Ok ''K3'', Ok ''K1''], [2, 2, 2])"
  by (simp add: rotationScenario_def start_defs SetSelectionStrategy_def select_defs)

text \<open>The sequence \<open>K1, K2, K3, K1, K2, K3\<close> of the claim is not what the six selections return.\<close>

theorem rotation_sequence_counterexample:
  "rotationScenario [1, 2, 3, 4, 5, 6] \<noteq>
     Inr ([Ok ''K1'', Ok ''K2'', Ok ''K3'', Ok ''K1'', Ok ''K2'', Ok ''K3''], [2, 2, 2])"
  by (simp add: rotationScenario_def start_defs SetSelectionStrategy_def select_defs)


subsection \<open>The strategy in force at start\<close>

lemma initKeys_strategy:
  "selectionStrategy (foldl (\<lambda>m' k. initKey k m') m ks) = selectionStrategy m"
  by (induction ks arbitrary: m) (simp_all add: initKey_def)

text \<open>
  C7 fails on the code. Whatever the configuration says, also its
  \<open>DefaultSelectionStrategy\<close>, a manager that \<open>NewManager\<close> returns starts with the
  strategy \<open>plan_first\<close>: the constructor sets it to the constant and nothing reads the
  configured value.
\<close>

theorem default_strategy_ignored:
  "NewManager cfg now repo = Inr m \<Longrightarrow> GetSelectionStrategy m = StrategyPlanFirst"
  by (auto simp: NewManager_def loadKeys_def GetSelectionStrategy_def initializeKeyStatus_def
        initKeys_strategy Let_def split: sum.splits if_splits)

text \<open>
  At the configuration loaded with \<open>DEFAULT_SELECTION_STRATEGY=round_robin\<close>, the
  manager starts with \<open>plan_first\<close>.
\<close>

theorem default_strategy_ignored_witness:
  "Load roundRobinEnv = Inr defaultConfig
   \<and> DefaultSelectionStrategy defaultConfig = ''round_robin''
   \<and> NewManager defaultConfig 0 (repoOf [''tvly-key-0001'']) = Inr (startedManager [''tvly-key-0001''])
   \<and> GetSelectionStrategy (startedManager [''tvly-key-0001'']) = ''plan_first''"
proof -
  have started: "NewManager defaultConfig 0 (repoOf [''tvly-key-0001'']) = Inr (startedManager [''tvly-key-0001''])"
    by (simp add: startedManager_def start_defs go_rem_def)
  have "Load roundRobinEnv = Inr defaultConfig"
    by (simp add: Load_def roundRobinEnv_def getEnvInt_def getEnvString_def validate_def defaultConfig_def)
  moreover have "DefaultSelectionStrategy defaultConfig = ''round_robin''"
    by (simp add: defaultConfig_def)
  ultimately show ?thesis
    using started default_strategy_ignored [OF started] by (simp add: StrategyPlanFirst_def)
qed

subsection \<open>Temporary blacklisting\<close>

lemma updateKeyUsage_blacklist [simp]: "blacklist (updateKeyUsage now k m) = blacklist m"
  by (simp add: updateKeyUsage_def)

lemma roundRobinLoop_blacklisted:
  "blacklist m k \<noteq> None \<Longrightarrow>
     fst (roundRobinLoop now n m) \<noteq> Ok k \<and> blacklist (snd (roundRobinLoop now n m)) = blacklist m"
  by (induction n arbitrary: m) (auto simp: Let_def)

lemma GetNextKey_blacklisted:
  "blacklist m k \<noteq> None \<Longrightarrow>
     fst (GetNextKey now m) \<noteq> Ok k \<and> blacklist (snd (GetNextKey now m)) = blacklist m"
  using roundRobinLoop_blacklisted [of m k now "length (keys m)"]
  by (auto simp: GetNextKey_def GetNextKeyWithStrategy_def getRoundRobinKey_def Let_def
        split: option.splits)

lemma sequentialSelections_blacklisted:
  "blacklist m k \<noteq> None \<Longrightarrow> Ok k \<notin> set (fst (sequentialSelections ts m))"
proof (induction ts arbitrary: m)
  case Nil
  then show ?case by simp
next
  case (Cons now ts)
  obtain r m1 where sel: "GetNextKey now m = (r, m1)" by (cases "GetNextKey now m")
  from GetNextKey_blacklisted [OF Cons.prems, of now] sel
  have r: "r \<noteq> Ok k" and bl: "blacklist m1 k \<noteq> None" using Cons.prems by auto
  from Cons.IH [OF bl] show ?case using sel r by (auto split: prod.splits)
qed

text \<open>
  C1 fails on the code. A manager is started at \<open>t0\<close> on the single key
  \<open>tvly-key-0001\<close> with the default threshold 1, and at \<open>t0\<close> an upstream 500 is
  recorded against the key. The key is blacklisted temporarily: the entry is not
  permanent and the repository row gets \<open>blacklisted_until = t0 + 5 minutes\<close>, so that
  the repository's own query for active keys returns the key again at \<open>t0 + 6 minutes\<close>.
  The selection of the manager does not: at \<open>t0 + 6 minutes\<close> it fails with
  \<open>all API keys are blacklisted\<close>, and no sequence of selections at any times ever
  returns the key. The in-memory entry holds no expiry and selection tests only whether
  an entry exists.
\<close>

theorem temporary_blacklist_never_expires:
  "\<exists>m0 m1. NewManager defaultConfig t0 (repoOf [''tvly-key-0001'']) = Inr m0
     \<and> RecordError t0 ''tvly-key-0001'' (ParseHTTPError 500 [] ''tvly-key-0001'') m0 = (Ok (), m1)
     \<and> map_option be_Permanent (blacklist m1 ''tvly-key-0001'') = Some False
     \<and> map ak_BlacklistedUntil (api_keys (keyRepo m1)) = [Some (t0 + 5 * Minute)]
     \<and> map_sum id (map ak_KeyValue) (GetAllActiveKeys (t0 + 6 * Minute) (keyRepo m1))
         = Inr [''tvly-key-0001'']
     \<and> fst (GetNextKey (t0 + 6 * Minute) m1)
         = Failed (NewTavilyError ErrorTypeNoKeysAvailable ''all API keys are blacklisted'' 500)
     \<and> (\<forall>ts. Ok ''tvly-key-0001'' \<notin> set (fst (sequentialSelections ts m1)))"
proof -
  define m0 where "m0 = projr (NewManager defaultConfig t0 (repoOf [''tvly-key-0001'']))"
  define m1 where
    "m1 = snd (RecordError t0 ''tvly-key-0001'' (ParseHTTPError 500 [] ''tvly-key-0001'') m0)"
  have a: "NewManager defaultConfig t0 (repoOf [''tvly-key-0001'']) = Inr m0"
    by (simp add: m0_def NewManager_def loadKeys_def GetAllActiveKeys_def repoOf_def emptyRepo_def
          CreateKey_def Let_def)
  have m0: "m0 = initializeKeyStatus
      \<lparr>keys = [''tvly-key-0001''], currentIndex = 0, keyRepo = repoOf [''tvly-key-0001''],
       blacklist = Map.empty, keyStatus = Map.empty, requestCounts = Map.empty,
       errorCounts = Map.empty, lastUsed = Map.empty, config = defaultConfig,
       usageTracker = NewTracker, selectionStrategy = StrategyPlanFirst, startTime = t0\<rparr>"
    by (simp add: m0_def NewManager_def loadKeys_def GetAllActiveKeys_def repoOf_def emptyRepo_def
          CreateKey_def Let_def go_rem_def defaultConfig_def)
  have b: "RecordError t0 ''tvly-key-0001'' (ParseHTTPError 500 [] ''tvly-key-0001'') m0 = (Ok (), m1)"
    by (simp add: m1_def m0 RecordError_def initializeKeyStatus_def initKey_def getErrorCount_def
          Error_def ParseHTTPError_def statusSwitch_def NewTavilyErrorWithKey_def
          NewTavilyError_def defaultConfig_def Let_def)
  have m1: "m1 = BlacklistKey t0 ''tvly-key-0001'' False
      (m0\<lparr>errorCounts := (errorCounts m0)(''tvly-key-0001'' \<mapsto> 1),
          keyStatus := (keyStatus m0)(''tvly-key-0001'' \<mapsto>
            freshStatus\<lparr>ks_ErrorCount := 1,
              ks_LastError := ''[server_error] Server error (key: tvly-key...)''\<rparr>)\<rparr>)"
    by (simp add: m1_def m0 RecordError_def initializeKeyStatus_def initKey_def getErrorCount_def
          Error_def ParseHTTPError_def statusSwitch_def NewTavilyErrorWithKey_def
          NewTavilyError_def defaultConfig_def Let_def IsPermanent_def ErrorTypeString_def
          freshStatus_def)
  have c: "map_option be_Permanent (blacklist m1 ''tvly-key-0001'') = Some False"
    by (simp add: m1 BlacklistKey_def Let_def)
  have repo: "keyRepo m1 = snd (Repo_BlacklistKey (repoOf [''tvly-key-0001'']) ''tvly-key-0001''
        ''temporary error'' False (Some (t0 + 5 * Minute)))"
    by (simp add: m1 m0 BlacklistKey_def Let_def initializeKeyStatus_def initKey_def)
  have d: "map ak_BlacklistedUntil (api_keys (keyRepo m1)) = [Some (t0 + 5 * Minute)]"
    by (simp add: repo Repo_BlacklistKey_def repoOf_def emptyRepo_def CreateKey_def Let_def)
  have e: "map_sum id (map ak_KeyValue) (GetAllActiveKeys (t0 + 6 * Minute) (keyRepo m1))
         = Inr [''tvly-key-0001'']"
    by (simp add: repo Repo_BlacklistKey_def repoOf_def emptyRepo_def CreateKey_def Let_def
          GetAllActiveKeys_def Minute_def)
  have bl: "blacklist m1 ''tvly-key-0001'' \<noteq> None"
    using c by auto
  have state: "keys m1 = [''tvly-key-0001'']" "selectionStrategy m1 = StrategyPlanFirst"
      "memoryCache (usageTracker m1) = []" "currentIndex m1 = 0"
    by (simp_all add: m1 m0 BlacklistKey_def Let_def initializeKeyStatus_def initKey_def
          NewTracker_def)
  have f: "fst (GetNextKey (t0 + 6 * Minute) m1)
         = Failed (NewTavilyError ErrorTypeNoKeysAvailable ''all API keys are blacklisted'' 500)"
    using bl by (simp add: GetNextKey_def GetNextKeyWithStrategy_def state GetOptimalKey_def
          GetAllUsage_def getRoundRobinKey_def Let_def go_rem_def)
  from sequentialSelections_blacklisted [OF bl]
  have g: "\<forall>ts. Ok ''tvly-key-0001'' \<notin> set (fst (sequentialSelections ts m1))" by blast
  show ?thesis
    by (rule exI [of _ m0], rule exI [of _ m1], intro conjI) (fact a b c d e f g)+
qed

text \<open>The same at \<open>t0 = 1000\<close>.\<close>

theorem temporary_blacklist_never_expires_witness:
  "\<exists>m0 m1. NewManager defaultConfig 1000 (repoOf [''tvly-key-0001'']) = Inr m0
     \<and> RecordError 1000 ''tvly-key-0001'' (ParseHTTPError 500 [] ''tvly-key-0001'') m0 = (Ok (), m1)
     \<and> map_option be_Permanent (blacklist m1 ''tvly-key-0001'') = Some False
     \<and> map ak_BlacklistedUntil (api_keys (keyRepo m1)) = [Some (1000 + 5 * Minute)]
     \<and> map_sum id (map ak_KeyValue) (GetAllActiveKeys (1000 + 6 * Minute) (keyRepo m1))
         = Inr [''tvly-key-0001'']
     \<and> fst (GetNextKey (1000 + 6 * Minute) m1)
         = Failed (NewTavilyError ErrorTypeNoKeysAvailable ''all API keys are blacklisted'' 500)
     \<and> (\<forall>ts. Ok ''tvly-key-0001'' \<notin> set (fst (sequentialSelections ts m1)))"
  by (rule temporary_blacklist_never_expires)


subsection \<open>The strategy endpoint\<close>

text \<open>
  C6. A \<open>POST /strategy\<close> with a known strategy \<open>X\<close> answers 200 and a following
  \<open>GET /strategy\<close> reports \<open>X\<close> as the current strategy. A \<open>POST\<close> with any other
  value \<open>Y\<close> answers 400 and leaves the manager as it was, so that a following \<open>GET\<close>
  reports the strategy set before.
\<close>

theorem strategy_round_trip:
  "(X = StrategyPlanFirst \<or> X = StrategyRoundRobin \<longrightarrow>
      statusOf (fst (StrategyHandler ''POST'' (Some X) m)) = 200
      \<and> current_strategy (fst (StrategyHandler ''GET'' d (snd (StrategyHandler ''POST'' (Some X) m))))
          = Some (JString X))
   \<and> (Y \<noteq> StrategyPlanFirst \<and> Y \<noteq> StrategyRoundRobin \<longrightarrow>
      statusOf (fst (StrategyHandler ''POST'' (Some Y) m)) = 400
      \<and> snd (StrategyHandler ''POST'' (Some Y) m) = m
      \<and> current_strategy (fst (StrategyHandler ''GET'' d (snd (StrategyHandler ''POST'' (Some Y) m))))
          = Some (JString (GetSelectionStrategy m)))"
  by (simp add: StrategyHandler_def setStrategyHandler_def getStrategyHandler_def
        current_strategy_def SetSelectionStrategy_def GetSelectionStrategy_def http_Error_def)

theorem strategy_round_trip_witness:
  "statusOf (fst (StrategyHandler ''POST'' (Some ''round_robin'') (startedManager [''tvly-key-0001''])))
     = 200
   \<and> current_strategy (fst (StrategyHandler ''GET'' None
        (snd (StrategyHandler ''POST'' (Some ''round_robin'') (startedManager [''tvly-key-0001''])))))
       = Some (JString ''round_robin'')
   \<and> statusOf (fst (StrategyHandler ''POST'' (Some ''weighted'') (startedManager [''tvly-key-0001''])))
       = 400
   \<and> current_strategy (fst (StrategyHandler ''GET'' None
        (snd (StrategyHandler ''POST'' (Some ''weighted'') (startedManager [''tvly-key-0001''])))))
       = Some (JString ''plan_first'')"
  using strategy_round_trip
    [of "''round_robin''" "startedManager [''tvly-key-0001'']" None "''weighted''"]
  by (simp add: StrategyRoundRobin_def StrategyPlanFirst_def GetSelectionStrategy_def
        startedManager_def NewManager_def loadKeys_def GetAllActiveKeys_def repoOf_def
        emptyRepo_def CreateKey_def Let_def initializeKeyStatus_def initKey_def
        StrategyHandler_def setStrategyHandler_def getStrategyHandler_def
        current_strategy_def SetSelectionStrategy_def http_Error_def)


subsection \<open>Utilisation\<close>

lemma utilization_range:
  "0 < sint limit \<Longrightarrow> 0 \<le> sint used \<Longrightarrow> sint used \<le> sint limit \<Longrightarrow>
     utilization used limit = real_of_int (sint used) / real_of_int (sint limit)
     \<and> 0 \<le> utilization used limit \<and> utilization used limit \<le> 1"
  by (simp add: utilization_def del: of_int_sint)

lemma utilization_over:
  "0 < sint limit \<Longrightarrow> sint limit < sint used \<Longrightarrow> 1 < utilization used limit"
  by (simp add: utilization_def del: of_int_sint)

text \<open>
  C8, as the code has it. For a key with a usage snapshot \<open>u\<close>, each utilisation is the
  quotient of usage and limit and lies in \<open>[0, 1]\<close> whenever its limit is positive and
  its usage lies between 0 and the limit. The code divides without clamping: a usage
  above a positive limit gives a utilisation above 1.
\<close>

theorem utilization_within_limits:
  "GetUsage t k = Some u \<Longrightarrow>
   (\<exists>r. CalculateRemainingPoints t k = Some r
      \<and> (0 < sint (Key_Limit u) \<and> 0 \<le> sint (Key_Usage u)
            \<and> sint (Key_Usage u) \<le> sint (Key_Limit u) \<longrightarrow>
           KeyUtilization r = real_of_int (sint (Key_Usage u)) / real_of_int (sint (Key_Limit u))
           \<and> 0 \<le> KeyUtilization r \<and> KeyUtilization r \<le> 1)
      \<and> (0 < sint (Account_PlanLimit u) \<and> 0 \<le> sint (Account_PlanUsage u)
            \<and> sint (Account_PlanUsage u) \<le> sint (Account_PlanLimit u) \<longrightarrow>
           PlanUtilization r
             = real_of_int (sint (Account_PlanUsage u)) / real_of_int (sint (Account_PlanLimit u))
           \<and> 0 \<le> PlanUtilization r \<and> PlanUtilization r \<le> 1)
      \<and> (0 < sint (Account_PaygoLimit u) \<and> 0 \<le> sint (Account_PaygoUsage u)
            \<and> sint (Account_PaygoUsage u) \<le> sint (Account_PaygoLimit u) \<longrightarrow>
           PaygoUtilization r
             = real_of_int (sint (Account_PaygoUsage u)) / real_of_int (sint (Account_PaygoLimit u))
           \<and> 0 \<le> PaygoUtilization r \<and> PaygoUtilization r \<le> 1)
      \<and> (0 < sint (Key_Limit u) \<and> sint (Key_Limit u) < sint (Key_Usage u) \<longrightarrow>
           1 < KeyUtilization r)
      \<and> (0 < sint (Account_PlanLimit u)
            \<and> sint (Account_PlanLimit u) < sint (Account_PlanUsage u) \<longrightarrow>
           1 < PlanUtilization r)
      \<and> (0 < sint (Account_PaygoLimit u)
            \<and> sint (Account_PaygoLimit u) < sint (Account_PaygoUsage u) \<longrightarrow>
           1 < PaygoUtilization r))"
  using utilization_range utilization_over
  by (simp add: CalculateRemainingPoints_def remainingOf_def Let_def del: of_int_sint)

theorem utilization_within_limits_witness:
  "GetUsage (snd (UpdateUsage True ''tvly-key-0001'' withinUsage NewTracker)) ''tvly-key-0001''
     = Some withinUsage
   \<and> map_option KeyUtilization
        (CalculateRemainingPoints
           (snd (UpdateUsage True ''tvly-key-0001'' withinUsage NewTracker)) ''tvly-key-0001'')
       = Some (2 / 5)
   \<and> map_option PlanUtilization
        (CalculateRemainingPoints
           (snd (UpdateUsage True ''tvly-key-0001'' withinUsage NewTracker)) ''tvly-key-0001'')
       = Some (1 / 4)
   \<and> map_option PaygoUtilization
        (CalculateRemainingPoints
           (snd (UpdateUsage True ''tvly-key-0001'' withinUsage NewTracker)) ''tvly-key-0001'')
       = Some 0"
proof -
  have g: "GetUsage (snd (UpdateUsage True ''tvly-key-0001'' withinUsage NewTracker))
      ''tvly-key-0001'' = Some withinUsage"
    by (simp add: GetUsage_def UpdateUsage_def NewTracker_def Let_def)
  from utilization_within_limits [OF g] g show ?thesis
    by (auto simp: withinUsage_def)
qed

text \<open>
  A key that has used 150 of its 100 points has a positive limit and the utilisation
  \<open>3/2\<close>, and so have its plan and its pay-as-you-go quota.
\<close>

theorem utilization_counterexample:
  "0 < sint (Key_Limit overUsage) \<and> 0 < sint (Account_PlanLimit overUsage)
   \<and> 0 < sint (Account_PaygoLimit overUsage)
   \<and> map_option KeyUtilization
        (CalculateRemainingPoints
           (snd (UpdateUsage True ''tvly-key-0001'' overUsage NewTracker)) ''tvly-key-0001'')
       = Some (3 / 2)
   \<and> map_option PlanUtilization
        (CalculateRemainingPoints
           (snd (UpdateUsage True ''tvly-key-0001'' overUsage NewTracker)) ''tvly-key-0001'')
       = Some (3 / 2)
   \<and> map_option PaygoUtilization
        (CalculateRemainingPoints
           (snd (UpdateUsage True ''tvly-key-0001'' overUsage NewTracker)) ''tvly-key-0001'')
       = Some (3 / 2)
   \<and> (1 :: real) < 3 / 2"
  by (simp add: CalculateRemainingPoints_def GetUsage_def UpdateUsage_def NewTracker_def Let_def
        remainingOf_def utilization_def overUsage_def)

subsection \<open>The key list of a constructed manager\<close>

lemma initKeys_keys [simp]: "keys (foldl (\<lambda>m' k. initKey k m') m ks) = keys m"
  by (induction ks arbitrary: m) (simp_all add: initKey_def)

lemma updateKeyUsage_keys [simp]: "keys (updateKeyUsage now k m) = keys m"
  by (simp add: updateKeyUsage_def)

lemma roundRobinLoop_keys [simp]: "keys (snd (roundRobinLoop now n m)) = keys m"
  by (induction n arbitrary: m) (simp_all add: Let_def)

lemma GetNextKeyWithStrategy_keys [simp]:
  "keys (snd (GetNextKeyWithStrategy now strategy m)) = keys m"
  by (simp add: GetNextKeyWithStrategy_def getRoundRobinKey_def Let_def split: option.splits)

lemma BlacklistKey_keys [simp]: "keys (BlacklistKey now k permanent m) = keys m"
  by (simp add: BlacklistKey_def Let_def)

lemma RecordError_keys [simp]: "keys (snd (RecordError now k err m)) = keys m"
  by (simp add: RecordError_def Let_def split: option.splits)

lemma apply_op_keys [simp]: "keys (apply_op operation m) = keys m"
  by (cases operation) (simp_all add: GetNextKey_def ResetKeys_def SetSelectionStrategy_def)

lemma apply_ops_keys: "keys (apply_ops ops m) = keys m"
  unfolding apply_ops_def by (induction ops arbitrary: m) simp_all

lemma NewManager_keys: "NewManager cfg now repo = Inr m \<Longrightarrow> keys m \<noteq> []"
  by (auto simp: NewManager_def loadKeys_def initializeKeyStatus_def Let_def
        split: sum.splits if_splits)

lemma GetStats_total:
  "keys m \<noteq> [] \<Longrightarrow> \<exists>stats. GetStats m = Some stats \<and> st_TotalKeys stats = int (length (keys m))"
  by (simp add: GetStats_def Let_def)

text \<open>
  C9. Construction fails when the repository yields no active key. A manager that
  \<open>NewManager\<close> returned has at least one key, and so it has after any sequence of
  operations of the manager: none of them assigns the key list. \<open>GetStats\<close> therefore
  never takes the remainder by zero; it returns the statistics, with the number of keys
  loaded at construction as the total.
\<close>

theorem stats_never_divides_by_zero:
  "(GetAllActiveKeys now repo = Inr [] \<longrightarrow> (\<exists>err. NewManager cfg now repo = Inl err))
   \<and> (NewManager cfg now repo = Inr m \<longrightarrow>
        1 \<le> length (keys (apply_ops ops m))
        \<and> (\<exists>stats. GetStats (apply_ops ops m) = Some stats
              \<and> st_TotalKeys stats = int (length (keys m))))"
proof (intro conjI impI)
  assume "GetAllActiveKeys now repo = Inr []"
  then show "\<exists>err. NewManager cfg now repo = Inl err"
    by (simp add: NewManager_def loadKeys_def Let_def)
next
  assume "NewManager cfg now repo = Inr m"
  then have "keys m \<noteq> []" by (rule NewManager_keys)
  then show "1 \<le> length (keys (apply_ops ops m))"
    by (cases "keys m") (simp_all add: apply_ops_keys)
next
  assume "NewManager cfg now repo = Inr m"
  then have "keys (apply_ops ops m) \<noteq> []" by (simp add: apply_ops_keys NewManager_keys)
  from GetStats_total [OF this]
  show "\<exists>stats. GetStats (apply_ops ops m) = Some stats
          \<and> st_TotalKeys stats = int (length (keys m))"
    by (simp add: apply_ops_keys)
qed

theorem stats_never_divides_by_zero_witness:
  "NewManager defaultConfig 0 (repoOf [''tvly-key-0001'', ''tvly-key-0002''])
     = Inr (startedManager [''tvly-key-0001'', ''tvly-key-0002''])
   \<and> map_option st_TotalKeys
        (GetStats (apply_ops
           [OpGetNextKey 1,
            OpRecordError 2 ''tvly-key-0002'' (ParseHTTPError 401 [] ''tvly-key-0002''),
            OpGetNextKey 3, OpResetKeys]
           (startedManager [''tvly-key-0001'', ''tvly-key-0002''])))
       = Some 2
   \<and> GetAllActiveKeys 0 emptyRepo = Inr []
   \<and> NewManager defaultConfig 0 emptyRepo
       = Inl ''failed to load keys: no active API keys found in database''"
proof -
  have started: "NewManager defaultConfig 0 (repoOf [''tvly-key-0001'', ''tvly-key-0002''])
     = Inr (startedManager [''tvly-key-0001'', ''tvly-key-0002''])"
    by (simp add: startedManager_def NewManager_def loadKeys_def GetAllActiveKeys_def repoOf_def
          emptyRepo_def CreateKey_def Let_def)
  have len: "length (keys (startedManager [''tvly-key-0001'', ''tvly-key-0002''])) = 2"
    by (simp add: startedManager_def NewManager_def loadKeys_def GetAllActiveKeys_def repoOf_def
          emptyRepo_def CreateKey_def Let_def initializeKeyStatus_def initKey_def)
  have none: "GetAllActiveKeys 0 emptyRepo = Inr []"
    by (simp add: GetAllActiveKeys_def emptyRepo_def)
  have failed: "NewManager defaultConfig 0 emptyRepo
      = Inl ''failed to load keys: no active API keys found in database''"
    by (simp add: NewManager_def loadKeys_def GetAllActiveKeys_def emptyRepo_def Let_def)
  from stats_never_divides_by_zero
    [of 0 "repoOf [''tvly-key-0001'', ''tvly-key-0002'']" defaultConfig
        "startedManager [''tvly-key-0001'', ''tvly-key-0002'']"
        "[OpGetNextKey 1,
          OpRecordError 2 ''tvly-key-0002'' (ParseHTTPError 401 [] ''tvly-key-0002''),
          OpGetNextKey 3, OpResetKeys]"]
    started len
  have "map_option st_TotalKeys
        (GetStats (apply_ops
           [OpGetNextKey 1,
            OpRecordError 2 ''tvly-key-0002'' (ParseHTTPError 401 [] ''tvly-key-0002''),
            OpGetNextKey 3, OpResetKeys]
           (startedManager [''tvly-key-0001'', ''tvly-key-0002''])))
       = Some 2"
    by auto
  with started none failed show ?thesis by simp
qed

subsection \<open>The format of accepted keys\<close>

lemma parseLines_filter:
  "parseLines ls =
     filter (\<lambda>line. line \<noteq> [] \<and> \<not> HasPrefix line ''#'' \<and> HasPrefix line ''tvly-'')
       (map TrimSpace ls)"
  by (induction ls) (simp_all add: Let_def)

lemma parseKeysFromText_prefix: "k \<in> set (parseKeysFromText text) \<Longrightarrow> HasPrefix k ''tvly-''"
  by (simp add: parseKeysFromText_def parseLines_filter)

lemma CreateKey_rows:
  "set (api_keys (snd (CreateKey r k name description)))
     \<subseteq> set (api_keys r) \<union> {row. ak_KeyValue row = k}"
  by (auto simp: CreateKey_def Let_def)

lemma importLoop_rows:
  "set (api_keys (snd (importLoop namePrefix i ks counts r)))
     \<subseteq> set (api_keys r) \<union> {row. ak_KeyValue row \<in> set ks}"
proof (induction ks arbitrary: i counts r)
  case Nil
  then show ?case by simp
next
  case (Cons k ks)
  obtain imported skipped errors where counts: "counts = (imported, skipped, errors)"
    by (cases counts) auto
  define name where "name = namePrefix @ '' '' @ fmt_d (int i + 1)"
  obtain res r1 where c: "CreateKey r k name ''Imported via web interface'' = (res, r1)"
    by (cases "CreateKey r k name ''Imported via web interface''")
  from CreateKey_rows [of r k name "''Imported via web interface''"] c
  have r1: "set (api_keys r1) \<subseteq> set (api_keys r) \<union> {row. ak_KeyValue row = k}" by simp
  have step: "set (api_keys (snd (importLoop namePrefix (Suc i) ks counts' r1)))
      \<subseteq> set (api_keys r) \<union> {row. ak_KeyValue row \<in> set (k # ks)}" for counts'
  proof -
    have "set (api_keys (snd (importLoop namePrefix (Suc i) ks counts' r1)))
        \<subseteq> set (api_keys r1) \<union> {row. ak_KeyValue row \<in> set ks}"
      by (rule Cons.IH)
    with r1 show ?thesis by auto
  qed
  have stop: "set (api_keys r1) \<subseteq> set (api_keys r) \<union> {row. ak_KeyValue row \<in> set (k # ks)}"
    using r1 by auto
  have unfold: "importLoop namePrefix i (k # ks) counts r =
      (if length k < 12 then (None, r1)
       else case res of
              Inl err \<Rightarrow>
                if err = DuplicateEntry
                then importLoop namePrefix (Suc i) ks (imported, skipped + 1, errors) r1
                else importLoop namePrefix (Suc i) ks (imported, skipped, errors + 1) r1
            | Inr created \<Rightarrow> importLoop namePrefix (Suc i) ks (imported + 1, skipped, errors) r1)"
    using c by (simp add: counts name_def)
  show ?case
    unfolding unfold using stop step by (simp split: sum.split)
qed

lemma addKeyHandler_rejects:
  "\<not> HasPrefix (req_Key request) ''tvly-'' \<Longrightarrow>
     map_option statusOf (fst (addKeyHandler (Some request) r)) = Some 400
     \<and> snd (addKeyHandler (Some request) r) = r"
  by (simp add: addKeyHandler_def http_Error_def)

lemma addKeyHandler_rows:
  "set (api_keys (snd (addKeyHandler decoded r)))
     \<subseteq> set (api_keys r) \<union> {row. HasPrefix (ak_KeyValue row) ''tvly-''}"
proof (cases decoded)
  case None
  then show ?thesis by (simp add: addKeyHandler_def)
next
  case (Some request)
  show ?thesis
  proof (cases "HasPrefix (req_Key request) ''tvly-''")
    case False
    then show ?thesis using Some by (simp add: addKeyHandler_def)
  next
    case True
    then have nonempty: "req_Key request \<noteq> []" by (auto simp: HasPrefix_def)
    define name where "name = (if req_Name request = [] then ''API Key'' else req_Name request)"
    obtain res r1 where c: "CreateKey r (req_Key request) name (req_Description request) = (res, r1)"
      by (cases "CreateKey r (req_Key request) name (req_Description request)")
    have "snd (addKeyHandler decoded r) = r1"
      using Some True nonempty c
      by (simp add: addKeyHandler_def Let_def name_def split: sum.split)
    moreover from CreateKey_rows [of r "req_Key request" name "req_Description request"] c True
    have "set (api_keys r1) \<subseteq> set (api_keys r) \<union> {row. HasPrefix (ak_KeyValue row) ''tvly-''}"
      by auto
    ultimately show ?thesis by simp
  qed
qed

lemma BulkImportKeysHandler_rows:
  "set (api_keys (snd (BulkImportKeysHandler bulk r)))
     \<subseteq> set (api_keys r) \<union> {row. HasPrefix (ak_KeyValue row) ''tvly-''}"
proof (cases bulk)
  case None
  then show ?thesis by (simp add: BulkImportKeysHandler_def)
next
  case (Some p)
  obtain keysText namePrefix where p: "p = (keysText, namePrefix)" by (cases p)
  define np where "np = (if namePrefix = [] then ''Imported Key'' else namePrefix)"
  define ks where "ks = parseKeysFromText keysText"
  obtain counts r1 where l: "importLoop np 0 ks (0, 0, 0) r = (counts, r1)"
    by (cases "importLoop np 0 ks (0, 0, 0) r")
  from importLoop_rows [of np 0 ks "(0, 0, 0)" r] l
  have "set (api_keys r1) \<subseteq> set (api_keys r) \<union> {row. ak_KeyValue row \<in> set ks}" by simp
  then have r1: "set (api_keys r1) \<subseteq> set (api_keys r) \<union> {row. HasPrefix (ak_KeyValue row) ''tvly-''}"
    using parseKeysFromText_prefix by (auto simp: ks_def)
  have "snd (BulkImportKeysHandler bulk r) = r \<or> snd (BulkImportKeysHandler bulk r) = r1"
    using Some p l
    by (simp add: BulkImportKeysHandler_def importKeysToDatabase_def Let_def np_def ks_def
          split: option.split prod.split)
  with r1 show ?thesis by auto
qed

text \<open>
  C10. Every key that the parser of bulk import and file upload returns starts with
  \<open>tvly-\<close>: the parser keeps, of the scanned lines with their white space trimmed,
  exactly those that are not empty, do not begin with \<open>#\<close> and begin with \<open>tvly-\<close>.
  The single-key endpoint answers 400 to a key without the prefix and leaves the
  repository as it was. Every row that the single-key endpoint or the bulk import adds to
  the repository holds a key with the prefix.
\<close>

theorem accepted_keys_have_prefix:
  "(\<forall>k \<in> set (parseKeysFromText text). HasPrefix k ''tvly-'')
   \<and> parseKeysFromText text =
       filter (\<lambda>line. line \<noteq> [] \<and> \<not> HasPrefix line ''#'' \<and> HasPrefix line ''tvly-'')
         (map TrimSpace (scanLines [] text))
   \<and> (\<not> HasPrefix (req_Key request) ''tvly-'' \<longrightarrow>
        map_option statusOf (fst (addKeyHandler (Some request) r)) = Some 400
        \<and> snd (addKeyHandler (Some request) r) = r)
   \<and> (\<forall>row \<in> set (api_keys (snd (addKeyHandler decoded r))).
        row \<in> set (api_keys r) \<or> HasPrefix (ak_KeyValue row) ''tvly-'')
   \<and> (\<forall>row \<in> set (api_keys (snd (BulkImportKeysHandler bulk r))).
        row \<in> set (api_keys r) \<or> HasPrefix (ak_KeyValue row) ''tvly-'')"
proof (intro conjI)
  show "\<forall>k \<in> set (parseKeysFromText text). HasPrefix k ''tvly-''"
    using parseKeysFromText_prefix by blast
  show "parseKeysFromText text =
       filter (\<lambda>line. line \<noteq> [] \<and> \<not> HasPrefix line ''#'' \<and> HasPrefix line ''tvly-'')
         (map TrimSpace (scanLines [] text))"
    by (simp add: parseKeysFromText_def parseLines_filter)
  show "\<not> HasPrefix (req_Key request) ''tvly-'' \<longrightarrow>
        map_option statusOf (fst (addKeyHandler (Some request) r)) = Some 400
        \<and> snd (addKeyHandler (Some request) r) = r"
    using addKeyHandler_rejects by blast
  show "\<forall>row \<in> set (api_keys (snd (addKeyHandler decoded r))).
        row \<in> set (api_keys r) \<or> HasPrefix (ak_KeyValue row) ''tvly-''"
    using addKeyHandler_rows [of decoded r] by blast
  show "\<forall>row \<in> set (api_keys (snd (BulkImportKeysHandler bulk r))).
        row \<in> set (api_keys r) \<or> HasPrefix (ak_KeyValue row) ''tvly-''"
    using BulkImportKeysHandler_rows [of bulk r] by blast
qed
theorem accepted_keys_have_prefix_witness:
  "parseKeysFromText sampleKeysText = [''tvly-key-0001'', ''tvly-key-0002'', ''tvly-key-0004'']
   \<and> list_all (\<lambda>k. HasPrefix k ''tvly-'') (parseKeysFromText sampleKeysText)
   \<and> \<not> HasPrefix (req_Key sampleRequest) ''tvly-''
   \<and> map_option statusOf (fst (addKeyHandler (Some sampleRequest) emptyRepo)) = Some 400
   \<and> snd (addKeyHandler (Some sampleRequest) emptyRepo) = emptyRepo
   \<and> map ak_KeyValue (api_keys (snd (BulkImportKeysHandler (Some (sampleKeysText, [])) emptyRepo)))
       = [''tvly-key-0001'', ''tvly-key-0002'', ''tvly-key-0004'']"
proof -
  have parsed: "parseKeysFromText sampleKeysText
      = [''tvly-key-0001'', ''tvly-key-0002'', ''tvly-key-0004'']"
    by (simp add: parseKeysFromText_def sampleKeysText_def MaxScanTokenSize_def dropCR_def
          TrimSpace_def TrimLeft_def TrimRight_def spaceRunes_def HasPrefix_def Let_def)
  have noPrefix: "\<not> HasPrefix (req_Key sampleRequest) ''tvly-''"
    by (simp add: sampleRequest_def HasPrefix_def)
  have imported: "map ak_KeyValue
      (api_keys (snd (BulkImportKeysHandler (Some (sampleKeysText, [])) emptyRepo)))
       = [''tvly-key-0001'', ''tvly-key-0002'', ''tvly-key-0004'']"
  proof -
    have "sampleKeysText \<noteq> []" by (simp add: sampleKeysText_def)
    then show ?thesis
      by (simp add: BulkImportKeysHandler_def parsed importKeysToDatabase_def
            CreateKey_def emptyRepo_def Let_def)
  qed
  from accepted_keys_have_prefix
    [of sampleKeysText sampleRequest emptyRepo "Some sampleRequest" "Some (sampleKeysText, [])"]
    parsed noPrefix imported
  show ?thesis by (simp add: list_all_iff)
qed

subsection \<open>The retry loop\<close>

lemma retryLoop_sound:
  "length errs = length used \<Longrightarrow> int (length used) = attempt \<Longrightarrow>
   attempt \<le> MaxRetries cfg + 1 \<Longrightarrow> \<forall>e \<in> set errs. IsRetryable e \<Longrightarrow>
   lastErr = (if errs = [] then None else Some (last errs)) \<Longrightarrow>
   (let r = retryLoop cfg clock up attempt lastErr used errs m
    in int (length (pr_attempts r)) \<le> MaxRetries cfg + 1
       \<and> length (pr_errors r) \<le> length (pr_attempts r)
       \<and> (pr_exit r = AllRetriesFailed \<longrightarrow>
            length (pr_errors r) = length (pr_attempts r)
            \<and> pr_written r = Some (allRetriesFailed
                 (if pr_errors r = [] then None else Some (last (pr_errors r)))))
       \<and> (\<forall>i < length (pr_errors r).
            \<not> IsRetryable (pr_errors r ! i) \<longrightarrow> length (pr_attempts r) = Suc i)
       \<and> (pr_exit r = NoKeyAvailable \<longrightarrow>
            pr_written r = Some (http_Error ''No API keys available'' 503))
       \<and> (pr_exit r = AllRetriesFailed \<longrightarrow>
            int (length (pr_attempts r)) = MaxRetries cfg + 1
            \<or> (pr_errors r \<noteq> [] \<and> \<not> IsRetryable (last (pr_errors r)))))"
proof (induction cfg clock up attempt lastErr used errs m rule: retryLoop.induct)
  case (1 cfg clock up attempt lastErr used errs m)
  note len = \<open>length errs = length used\<close>
  note att = \<open>int (length used) = attempt\<close>
  note bound = \<open>attempt \<le> MaxRetries cfg + 1\<close>
  note retr = \<open>\<forall>e \<in> set errs. IsRetryable e\<close>
  note last = \<open>lastErr = (if errs = [] then None else Some (last errs))\<close>
  have old: "\<forall>i < length errs. IsRetryable (errs ! i)"
    using retr by simp
  have old': "\<forall>i < Suc (length errs). \<not> IsRetryable ((errs @ [err]) ! i) \<longrightarrow> i = length errs" for err
    using old by (auto simp: nth_append less_Suc_eq)
  show ?case
  proof (cases "attempt \<le> MaxRetries cfg")
    case False
    have eq: "retryLoop cfg clock up attempt lastErr used errs m =
        \<lparr>pr_exit = AllRetriesFailed, pr_written = Some (allRetriesFailed lastErr),
         pr_attempts = used, pr_errors = errs, pr_manager = m\<rparr>"
      using False by (subst retryLoop.simps) simp
    show ?thesis
      unfolding eq Let_def using len att bound last old False by simp
  next
    case True
    obtain res m1 where sel: "GetNextKey (clock attempt) m = (res, m1)"
      by (cases "GetNextKey (clock attempt) m")
    show ?thesis
    proof (cases res)
      case (Failed e)
      have eq: "retryLoop cfg clock up attempt lastErr used errs m =
          \<lparr>pr_exit = NoKeyAvailable,
           pr_written = Some (http_Error ''No API keys available'' 503),
           pr_attempts = used, pr_errors = errs, pr_manager = m1\<rparr>"
        using True sel Failed by (subst retryLoop.simps) simp
      show ?thesis
        unfolding eq Let_def using len att bound old by simp
    next
      case Panic
      have eq: "retryLoop cfg clock up attempt lastErr used errs m =
          \<lparr>pr_exit = Panicked, pr_written = None,
           pr_attempts = used, pr_errors = errs, pr_manager = m1\<rparr>"
        using True sel Panic by (subst retryLoop.simps) simp
      show ?thesis
        unfolding eq Let_def using len att bound old by simp
    next
      case (Ok apiKey)
      show ?thesis
      proof (cases "makeRequest (up attempt apiKey) apiKey")
        case (Inr resp)
        have eq: "retryLoop cfg clock up attempt lastErr used errs m =
            \<lparr>pr_exit = (if length apiKey < 12 then Panicked else Success),
             pr_written = Some resp,
             pr_attempts = used @ [apiKey], pr_errors = errs, pr_manager = m1\<rparr>"
          using True sel Ok Inr by (subst retryLoop.simps) simp
        show ?thesis
          unfolding eq Let_def using len att True old by simp
      next
        case (Inl err)
        obtain rr m2 where rec: "RecordError (clock attempt) apiKey err m1 = (rr, m2)"
          by (cases "RecordError (clock attempt) apiKey err m1")
        have stop: "?thesis"
          if eq: "retryLoop cfg clock up attempt lastErr used errs m =
            \<lparr>pr_exit = ex, pr_written = wr,
             pr_attempts = used @ [apiKey], pr_errors = errs @ [err], pr_manager = m2\<rparr>"
          and wr: "ex = AllRetriesFailed \<Longrightarrow>
                     wr = Some (allRetriesFailed (Some err)) \<and> \<not> IsRetryable err"
          and ex: "ex \<noteq> NoKeyAvailable" for ex wr
          unfolding eq Let_def using len att True old' [of err] wr ex by auto
        show ?thesis
        proof (cases "rr = Panic")
          case True
          have "retryLoop cfg clock up attempt lastErr used errs m =
              \<lparr>pr_exit = Panicked, pr_written = None,
               pr_attempts = used @ [apiKey], pr_errors = errs @ [err], pr_manager = m2\<rparr>"
            using \<open>attempt \<le> MaxRetries cfg\<close> sel Ok Inl rec True
            by (subst retryLoop.simps) simp
          then show ?thesis by (rule stop) simp_all
        next
          case notPanic: False
          show ?thesis
          proof (cases "IsRetryable err")
            case False
            have "retryLoop cfg clock up attempt lastErr used errs m =
                \<lparr>pr_exit = AllRetriesFailed,
                 pr_written = Some (allRetriesFailed (Some err)),
                 pr_attempts = used @ [apiKey], pr_errors = errs @ [err], pr_manager = m2\<rparr>"
              using \<open>attempt \<le> MaxRetries cfg\<close> sel Ok Inl rec notPanic False
              by (subst retryLoop.simps) (cases rr; simp)
            then show ?thesis by (rule stop) (simp_all add: False)
          next
            case retryable: True
            show ?thesis
            proof (cases "length apiKey < 12")
              case True
              have "retryLoop cfg clock up attempt lastErr used errs m =
                  \<lparr>pr_exit = Panicked, pr_written = None,
                   pr_attempts = used @ [apiKey], pr_errors = errs @ [err], pr_manager = m2\<rparr>"
                using \<open>attempt \<le> MaxRetries cfg\<close> sel Ok Inl rec notPanic retryable True
                by (subst retryLoop.simps) (cases rr; simp)
              then show ?thesis by (rule stop) simp_all
            next
              case False
              have eq: "retryLoop cfg clock up attempt lastErr used errs m =
                  retryLoop cfg clock up (attempt + 1) (Some err) (used @ [apiKey])
                    (errs @ [err]) m2"
                using \<open>attempt \<le> MaxRetries cfg\<close> sel Ok Inl rec notPanic retryable False
                by (subst retryLoop.simps) (cases rr; simp)
              have pre: "length (errs @ [err]) = length (used @ [apiKey])"
                  "int (length (used @ [apiKey])) = attempt + 1"
                  "attempt + 1 \<le> MaxRetries cfg + 1"
                  "\<forall>e \<in> set (errs @ [err]). IsRetryable e"
                  "Some err = (if errs @ [err] = [] then None else Some (List.last (errs @ [err])))"
                using len att \<open>attempt \<le> MaxRetries cfg\<close> retr retryable by simp_all
              show ?thesis
              proof (cases rr)
                case (Ok u)
                from "1.IH"(1) [OF \<open>attempt \<le> MaxRetries cfg\<close> sel [symmetric] \<open>res = Ok apiKey\<close>
                    Inl rec [symmetric] Ok _ False pre]
                show ?thesis using retryable unfolding eq by simp
              next
                case (Failed e)
                from "1.IH"(2) [OF \<open>attempt \<le> MaxRetries cfg\<close> sel [symmetric] \<open>res = Ok apiKey\<close>
                    Inl rec [symmetric] Failed _ False pre]
                show ?thesis using retryable unfolding eq by simp
              next
                case Panic
                with notPanic show ?thesis by simp
              qed
            qed
          qed
        qed
      qed
    qed
  qed
qed


text \<open>
  C4, as the code has it. A request makes at most \<open>MaxRetries + 1\<close> upstream attempts,
  hence uses at most that many distinct keys. When the loop ends without a success, each
  attempt has failed and the client receives the status and the message of the last
  classified error; this happens after exactly \<open>MaxRetries + 1\<close> attempts or right after
  an error that is not retryable. An error that is not retryable is followed by no
  further attempt. When no key can be selected for an attempt, the client receives 503
  \<open>No API keys available\<close> instead, whatever errors the attempts before have met.
\<close>

theorem retry_budget:
  assumes nonneg: "0 \<le> MaxRetries cfg"
  shows
  "(let r = proxyTavilyRequest cfg clock up body m
    in int (length (pr_attempts r)) \<le> MaxRetries cfg + 1
       \<and> int (card (set (pr_attempts r))) \<le> MaxRetries cfg + 1
       \<and> length (pr_errors r) \<le> length (pr_attempts r)
       \<and> (pr_exit r = AllRetriesFailed \<longrightarrow>
            pr_errors r \<noteq> []
            \<and> length (pr_errors r) = length (pr_attempts r)
            \<and> pr_written r = Some (http_Error (te_Message (last (pr_errors r)))
                                   (te_StatusCode (last (pr_errors r))))
            \<and> (int (length (pr_attempts r)) = MaxRetries cfg + 1
                 \<or> \<not> IsRetryable (last (pr_errors r))))
       \<and> (\<forall>i < length (pr_errors r).
            \<not> IsRetryable (pr_errors r ! i) \<longrightarrow> length (pr_attempts r) = Suc i)
       \<and> (pr_exit r = NoKeyAvailable \<longrightarrow>
            pr_written r = Some (http_Error ''No API keys available'' 503)))"
proof (cases body)
  case None
  then show ?thesis using nonneg by (simp add: proxyTavilyRequest_def)
next
  case (Some b)
  define r where "r = retryLoop cfg clock up 0 None [] [] m"
  from retryLoop_sound [of "[]" "[]" 0 cfg None clock up m] nonneg
  have sound:
    "int (length (pr_attempts r)) \<le> MaxRetries cfg + 1"
    "length (pr_errors r) \<le> length (pr_attempts r)"
    "pr_exit r = AllRetriesFailed \<Longrightarrow>
       length (pr_errors r) = length (pr_attempts r)
       \<and> pr_written r = Some (allRetriesFailed
            (if pr_errors r = [] then None else Some (last (pr_errors r))))"
    "\<forall>i < length (pr_errors r).
       \<not> IsRetryable (pr_errors r ! i) \<longrightarrow> length (pr_attempts r) = Suc i"
    "pr_exit r = NoKeyAvailable \<Longrightarrow>
       pr_written r = Some (http_Error ''No API keys available'' 503)"
    "pr_exit r = AllRetriesFailed \<Longrightarrow>
       int (length (pr_attempts r)) = MaxRetries cfg + 1
       \<or> (pr_errors r \<noteq> [] \<and> \<not> IsRetryable (last (pr_errors r)))"
    by (simp_all add: Let_def r_def)
  have card: "int (card (set (pr_attempts r))) \<le> MaxRetries cfg + 1"
    using card_length [of "pr_attempts r"] sound(1) by linarith
  have failed: "pr_errors r \<noteq> []
      \<and> length (pr_errors r) = length (pr_attempts r)
      \<and> pr_written r = Some (http_Error (te_Message (last (pr_errors r)))
                             (te_StatusCode (last (pr_errors r))))
      \<and> (int (length (pr_attempts r)) = MaxRetries cfg + 1
           \<or> \<not> IsRetryable (last (pr_errors r)))"
    if ex: "pr_exit r = AllRetriesFailed"
  proof -
    from sound(3) [OF ex] have len: "length (pr_errors r) = length (pr_attempts r)" by simp
    from sound(6) [OF ex] nonneg len have ne: "pr_errors r \<noteq> []" by auto
    from sound(3) [OF ex] ne
    have "pr_written r = Some (http_Error (te_Message (last (pr_errors r)))
                             (te_StatusCode (last (pr_errors r))))"
      by (simp add: allRetriesFailed_def)
    with len ne sound(6) [OF ex] show ?thesis by blast
  qed
  have eq: "proxyTavilyRequest cfg clock up body m = r"
    by (simp add: proxyTavilyRequest_def Some r_def)
  show ?thesis
    unfolding eq Let_def using sound(1,2,4,5) card failed by blast
qed

lemmas run_defs = proxyTavilyRequest_def startedWith_def NewManager_def loadKeys_def
  GetAllActiveKeys_def repoOf_def emptyRepo_def CreateKey_def initializeKeyStatus_def initKey_def
  NewTracker_def Let_def GetNextKey_def GetNextKeyWithStrategy_def StrategyPlanFirst_def
  getRoundRobinKey_def GetOptimalKey_def GetAllUsage_def updateKeyUsage_def getRequestCount_def
  go_rem_def always500_def makeRequest_def ParseHTTPError_def statusSwitch_def
  NewTavilyErrorWithKey_def NewTavilyError_def RecordError_def getErrorCount_def Error_def
  ErrorTypeString_def IsRetryable_def IsPermanent_def BlacklistKey_def Repo_BlacklistKey_def
  allRetriesFailed_def http_Error_def attemptClock_def

lemma exhaustingRun_value:
  "pr_exit exhaustingRun = AllRetriesFailed
   \<and> pr_attempts exhaustingRun = [''tvly-key-0001'', ''tvly-key-0001'', ''tvly-key-0001'']
   \<and> map te_StatusCode (pr_errors exhaustingRun) = [500, 500, 500]
   \<and> pr_written exhaustingRun = Some (Plain 500 (''Server error'' @ [CHR 0x0A]))"
  by (simp add: exhaustingRun_def patientConfig_def retryLoop.simps run_defs)

text \<open>
  Under the default threshold 1 each of the two keys is blacklisted by its failed attempt,
  and the third selection finds no key: both attempts have failed with a classified 500,
  and the client receives 503 \<open>No API keys available\<close>, not the status and message of
  the last classified error.
\<close>

theorem retry_budget_counterexample:
  "pr_attempts blacklistingRun = [''tvly-key-0002'', ''tvly-key-0001'']
   \<and> map te_StatusCode (pr_errors blacklistingRun) = [500, 500]
   \<and> map te_Message (pr_errors blacklistingRun) = [''Server error'', ''Server error'']
   \<and> pr_written blacklistingRun = Some (Plain 503 (''No API keys available'' @ [CHR 0x0A]))
   \<and> pr_written blacklistingRun
       \<noteq> Some (http_Error (te_Message (last (pr_errors blacklistingRun)))
                  (te_StatusCode (last (pr_errors blacklistingRun))))"
  by (simp add: blacklistingRun_def defaultConfig_def retryLoop.simps run_defs)

text \<open>
  With threshold 5 and two retries, one key and an upstream that always answers 500, the
  three attempts use the key, and the client receives the 500 of the last error.
\<close>

theorem retry_budget_witness:
  "0 \<le> MaxRetries patientConfig
   \<and> pr_exit exhaustingRun = AllRetriesFailed
   \<and> pr_attempts exhaustingRun = [''tvly-key-0001'', ''tvly-key-0001'', ''tvly-key-0001'']
   \<and> int (length (pr_attempts exhaustingRun)) = MaxRetries patientConfig + 1
   \<and> map te_StatusCode (pr_errors exhaustingRun) = [500, 500, 500]
   \<and> pr_written exhaustingRun = Some (Plain 500 (''Server error'' @ [CHR 0x0A]))"
proof -
  have n: "0 \<le> MaxRetries patientConfig" and three: "MaxRetries patientConfig + 1 = 3"
    by (simp_all add: patientConfig_def)
  from retry_budget [OF n, of attemptClock always500 "Some []"
      "startedWith patientConfig [''tvly-key-0001'']"]
    exhaustingRun_value n three
  show ?thesis by (simp add: exhaustingRun_def Let_def)
qed

subsection \<open>Requests bound errors\<close>

lemma sint_succ:
  fixes w :: int64
  assumes "sint w < 2 ^ 63 - 1"
  shows "sint (w + 1) = sint w + 1"
proof -
  have lo: "- (2 ^ 63) \<le> sint w" using sint_ge [of w] by simp
  have "sint (w + 1) = signed_take_bit 63 (sint w + 1)"
    by (simp add: sint_word_ariths)
  also have "\<dots> = sint w + 1"
    using lo assms by (intro signed_take_bit_int_eq_self) simp_all
  finally show ?thesis .
qed

lemma updateKeyUsage_counts:
  "getRequestCount (updateKeyUsage now k m) k' =
     (if k' = k then getRequestCount m k + 1 else getRequestCount m k')"
  "getErrorCount (updateKeyUsage now k m) k' = getErrorCount m k'"
  by (simp_all add: updateKeyUsage_def getRequestCount_def getErrorCount_def)

lemma selected_cong:
  assumes "selected res m1" and "requestCounts m1 = requestCounts m"
    and "errorCounts m1 = errorCounts m"
  shows "selected res m"
proof -
  have eq: "getRequestCount m1 = getRequestCount m" "getErrorCount m1 = getErrorCount m"
    using assms(2,3) by (simp_all add: fun_eq_iff getRequestCount_def getErrorCount_def)
  have "selected res m1 = selected res m"
    by (simp only: selected_def eq)
  with assms(1) show ?thesis by simp
qed

lemma selected_Ok: "selected (Ok k, updateKeyUsage now k m) m"
  by (simp add: selected_def updateKeyUsage_counts)

lemma selected_not_Ok: "\<forall>k. r \<noteq> Ok k \<Longrightarrow> selected (r, m) m"
  by (simp add: selected_def)

lemma roundRobinLoop_selected: "selected (roundRobinLoop now n m) m"
proof (induction n arbitrary: m)
  case 0
  show ?case by (simp add: selected_not_Ok)
next
  case (Suc n)
  define m1 where "m1 = m\<lparr>currentIndex := currentIndex m + 1\<rparr>"
  have same: "requestCounts m1 = requestCounts m" "errorCounts m1 = errorCounts m"
    by (simp_all add: m1_def)
  have "selected (roundRobinLoop now (Suc n) m) m1"
    using Suc.IH [of m1] selected_Ok [of _ now m1] selected_not_Ok [of Panic m1]
    by (simp add: Let_def m1_def [symmetric])
  then show ?case using same by (rule selected_cong)
qed

lemma GetNextKey_selected: "selected (GetNextKey now m) m"
  using roundRobinLoop_selected [of now "length (keys m)" m] selected_Ok [of _ now m]
    selected_not_Ok [of "Failed (NewTavilyError ErrorTypeNoKeysAvailable ''no API keys available'' 500)" m]
  by (simp add: GetNextKey_def GetNextKeyWithStrategy_def getRoundRobinKey_def Let_def
        split: option.split)

lemma BlacklistKey_counts:
  "getRequestCount (BlacklistKey now k permanent m) k' = getRequestCount m k'"
  "getErrorCount (BlacklistKey now k permanent m) k' = getErrorCount m k'"
  by (simp_all add: BlacklistKey_def Let_def getRequestCount_def getErrorCount_def)

lemma RecordError_counts:
  "getRequestCount (snd (RecordError now k err m)) k' = getRequestCount m k'"
  "getErrorCount (snd (RecordError now k err m)) k' =
     (if k' = k then getErrorCount m k + 1 else getErrorCount m k')"
  by (simp_all add: RecordError_def Let_def BlacklistKey_counts split: option.split)
     (simp_all add: getRequestCount_def getErrorCount_def)

lemma initKeys_counts:
  "(\<forall>k. getRequestCount m k = 0 \<and> getErrorCount m k = 0) \<Longrightarrow>
     getRequestCount (foldl (\<lambda>m' k. initKey k m') m ks) k' = 0
     \<and> getErrorCount (foldl (\<lambda>m' k. initKey k m') m ks) k' = 0"
proof (induction ks arbitrary: m)
  case Nil
  then show ?case by simp
next
  case (Cons k ks)
  have "\<forall>k'. getRequestCount (initKey k m) k' = 0 \<and> getErrorCount (initKey k m) k' = 0"
    using Cons.prems by (simp add: initKey_def getRequestCount_def getErrorCount_def)
  from Cons.IH [OF this] show ?case by simp
qed

lemma NewManager_counts:
  "NewManager cfg now repo = Inr m \<Longrightarrow> getRequestCount m k = 0 \<and> getErrorCount m k = 0"
proof -
  assume new: "NewManager cfg now repo = Inr m"
  then obtain m' where m: "m = initializeKeyStatus m'"
      and empty: "requestCounts m' = Map.empty" "errorCounts m' = Map.empty"
    by (auto simp: NewManager_def loadKeys_def Let_def split: sum.splits if_splits)
  have "\<forall>k. getRequestCount m' k = 0 \<and> getErrorCount m' k = 0"
    by (simp add: getRequestCount_def getErrorCount_def empty)
  from initKeys_counts [OF this] show ?thesis
    by (simp add: m initializeKeyStatus_def)
qed

lemma count_list_remove1:
  "k \<in> set xs \<Longrightarrow>
     int (count_list (remove1 k xs) k') = int (count_list xs k') - (if k' = k then 1 else 0)"
  by (induction xs) auto

lemma count_list_pos: "k \<in> set xs \<Longrightarrow> 1 \<le> int (count_list xs k)"
  by (induction xs) auto

lemma countersInvI:
  "(\<And>k. 0 \<le> sint (getErrorCount m k)
         \<and> sint (getErrorCount m k) + int (count_list inflight k) \<le> sint (getRequestCount m k)
         \<and> sint (getRequestCount m k) \<le> int n) \<Longrightarrow>
     countersInv n (m, inflight)"
  by (simp add: countersInv_def)

lemma step_countersInv:
  assumes inv: "countersInv n s" and small: "Suc n < 2 ^ 63"
  shows "countersInv (Suc n) (step e s)"
proof -
  obtain m inflight where s: "s = (m, inflight)" by (cases s)
  from small have "int (Suc n) < int (2 ^ 63)" by (simp only: of_nat_less_iff)
  then have bound: "int n < 2 ^ 63 - 1" by simp
  from inv have e0: "0 \<le> sint (getErrorCount m k)"
    and le: "sint (getErrorCount m k) + int (count_list inflight k) \<le> sint (getRequestCount m k)"
    and up: "sint (getRequestCount m k) \<le> int n" for k
    by (simp_all add: countersInv_def s)
  have req_succ: "sint (getRequestCount m k + 1) = sint (getRequestCount m k) + 1" for k
    using up [of k] bound by (intro sint_succ) linarith
  show ?thesis
  proof (cases e)
    case (Select now)
    obtain r m1 where sel: "GetNextKey now m = (r, m1)" by (cases "GetNextKey now m")
    from GetNextKey_selected [of now m] sel
    consider (ok) k where "r = Ok k"
        "\<And>k'. getRequestCount m1 k' = (if k' = k then getRequestCount m k + 1 else getRequestCount m k')"
        "\<And>k'. getErrorCount m1 k' = getErrorCount m k'"
      | (none) "\<And>k. r \<noteq> Ok k" "\<And>k'. getRequestCount m1 k' = getRequestCount m k'"
        "\<And>k'. getErrorCount m1 k' = getErrorCount m k'"
      by (auto simp: selected_def)
    then show ?thesis
    proof cases
      case ok
      have st: "step e s = (m1, k # inflight)" by (simp add: Select s sel ok(1))
      have "countersInv (Suc n) (m1, k # inflight)"
      proof (rule countersInvI)
        fix k'
        show "0 \<le> sint (getErrorCount m1 k')
           \<and> sint (getErrorCount m1 k') + int (count_list (k # inflight) k')
               \<le> sint (getRequestCount m1 k')
           \<and> sint (getRequestCount m1 k') \<le> int (Suc n)"
        proof (cases "k' = k")
          case True
          show ?thesis
            using e0 [of k] le [of k] up [of k] req_succ [of k] by (simp add: ok(2,3) True)
        next
          case False
          then show ?thesis
            using e0 [of k'] le [of k'] up [of k'] by (simp add: ok(2,3))
        qed
      qed
      with st show ?thesis by simp
    next
      case none
      have st: "step e s = (m1, inflight)"
      proof (cases r)
        case (Ok k)
        with none(1) [of k] show ?thesis by simp
      qed (simp_all add: Select s sel)
      have "countersInv (Suc n) (m1, inflight)"
      proof (rule countersInvI)
        fix k'
        show "0 \<le> sint (getErrorCount m1 k')
           \<and> sint (getErrorCount m1 k') + int (count_list inflight k')
               \<le> sint (getRequestCount m1 k')
           \<and> sint (getRequestCount m1 k') \<le> int (Suc n)"
          using e0 [of k'] le [of k'] up [of k'] by (simp add: none(2,3))
      qed
      with st show ?thesis by simp
    qed
  next
    case (RecordRequest now k)
    have st: "step e s = (updateKeyUsage now k m, inflight)" by (simp add: RecordRequest s)
    have "countersInv (Suc n) (updateKeyUsage now k m, inflight)"
    proof (rule countersInvI)
      fix k'
      show "0 \<le> sint (getErrorCount (updateKeyUsage now k m) k')
         \<and> sint (getErrorCount (updateKeyUsage now k m) k') + int (count_list inflight k')
             \<le> sint (getRequestCount (updateKeyUsage now k m) k')
         \<and> sint (getRequestCount (updateKeyUsage now k m) k') \<le> int (Suc n)"
      proof (cases "k' = k")
        case True
        show ?thesis
          using e0 [of k] le [of k] up [of k] req_succ [of k]
          by (simp add: updateKeyUsage_counts True)
      next
        case False
        then show ?thesis
          using e0 [of k'] le [of k'] up [of k'] by (simp add: updateKeyUsage_counts)
      qed
    qed
    with st show ?thesis by simp
  next
    case (Succeed k)
    have st: "step e s = (m, remove1 k inflight)" by (simp add: Succeed s)
    have less: "int (count_list (remove1 k inflight) k') \<le> int (count_list inflight k')" for k'
      by (cases "k \<in> set inflight") (simp_all add: count_list_remove1 remove1_idem)
    have "countersInv (Suc n) (m, remove1 k inflight)"
    proof (rule countersInvI)
      fix k'
      show "0 \<le> sint (getErrorCount m k')
         \<and> sint (getErrorCount m k') + int (count_list (remove1 k inflight) k')
             \<le> sint (getRequestCount m k')
         \<and> sint (getRequestCount m k') \<le> int (Suc n)"
        using e0 [of k'] le [of k'] up [of k'] less [of k'] by simp
    qed
    with st show ?thesis by simp
  next
    case (Fail now k err)
    show ?thesis
    proof (cases "k \<in> set inflight")
      case False
      then have st: "step e s = (m, inflight)" by (simp add: Fail s)
      have "countersInv (Suc n) (m, inflight)"
      proof (rule countersInvI)
        fix k'
        show "0 \<le> sint (getErrorCount m k')
           \<and> sint (getErrorCount m k') + int (count_list inflight k')
               \<le> sint (getRequestCount m k')
           \<and> sint (getRequestCount m k') \<le> int (Suc n)"
          using e0 [of k'] le [of k'] up [of k'] by simp
      qed
      with st show ?thesis by simp
    next
      case True
      define m1 where "m1 = snd (RecordError now k err m)"
      have st: "step e s = (m1, remove1 k inflight)"
        using True by (simp add: Fail s m1_def)
      have one: "1 \<le> int (count_list inflight k)" using True by (rule count_list_pos)
      have "sint (getErrorCount m k) < 2 ^ 63 - 1"
        using le [of k] up [of k] one bound by linarith
      then have err_succ: "sint (getErrorCount m k + 1) = sint (getErrorCount m k) + 1"
        by (rule sint_succ)
      have "countersInv (Suc n) (m1, remove1 k inflight)"
      proof (rule countersInvI)
        fix k'
        show "0 \<le> sint (getErrorCount m1 k')
           \<and> sint (getErrorCount m1 k') + int (count_list (remove1 k inflight) k')
               \<le> sint (getRequestCount m1 k')
           \<and> sint (getRequestCount m1 k') \<le> int (Suc n)"
        proof (cases "k' = k")
          case same: True
          show ?thesis
            using e0 [of k] le [of k] up [of k] err_succ one
            by (simp add: m1_def RecordError_counts count_list_remove1 [OF True] same
                  del: of_nat_diff)
        next
          case False
          then show ?thesis
            using e0 [of k'] le [of k'] up [of k']
            by (simp add: m1_def RecordError_counts count_list_remove1 [OF True])
        qed
      qed
      with st show ?thesis by simp
    qed
  next
    case (UsageUpdate cacheOk k u)
    define m1 where "m1 = m\<lparr>usageTracker := snd (UpdateUsage cacheOk k u (usageTracker m))\<rparr>"
    have st: "step e s = (m1, inflight)"
      by (simp add: UsageUpdate s m1_def)
    have same: "getRequestCount m1 k' = getRequestCount m k'"
        "getErrorCount m1 k' = getErrorCount m k'" for k'
      by (simp_all add: m1_def getRequestCount_def getErrorCount_def)
    have "countersInv (Suc n) (m1, inflight)"
    proof (rule countersInvI)
      fix k'
      show "0 \<le> sint (getErrorCount m1 k')
         \<and> sint (getErrorCount m1 k') + int (count_list inflight k')
             \<le> sint (getRequestCount m1 k')
         \<and> sint (getRequestCount m1 k') \<le> int (Suc n)"
        using e0 [of k'] le [of k'] up [of k'] by (simp add: same)
    qed
    with st show ?thesis by simp
  qed
qed

lemma run_snoc: "run (evs @ [e]) s = step e (run evs s)"
  by (simp add: run_def)

lemma run_countersInv:
  "countersInv 0 s \<Longrightarrow> length evs < 2 ^ 63 \<Longrightarrow> countersInv (length evs) (run evs s)"
proof (induction evs rule: rev_induct)
  case Nil
  then show ?case by (simp add: run_def)
next
  case (snoc e evs)
  from snoc.prems have small: "Suc (length evs) < 2 ^ 63" by simp
  then have "length evs < 2 ^ 63" by simp
  from snoc.IH [OF snoc.prems(1) this] have "countersInv (length evs) (run evs s)" .
  from step_countersInv [OF this small] show ?case by (simp add: run_snoc)
qed


lemma run_append: "run (evs @ evs') s = run evs' (run evs s)"
  by (simp add: run_def)

text \<open>
  Every execution of the retry loop of the proxy handler is a run of these steps: one
  \<open>Select\<close> for each attempt, followed by the \<open>Fail\<close> or the \<open>Succeed\<close> of the
  selected key, which leaves the keys in flight as they were before.
\<close>

lemma retryLoop_is_run:
  "\<exists>evs. run evs (m, inflight)
      = (pr_manager (retryLoop cfg clock up attempt lastErr used errs m), inflight)"
proof (induction cfg clock up attempt lastErr used errs m rule: retryLoop.induct)
  case (1 cfg clock up attempt lastErr used errs m)
  let ?now = "clock attempt"
  show ?case
  proof (cases "attempt \<le> MaxRetries cfg")
    case False
    then have "pr_manager (retryLoop cfg clock up attempt lastErr used errs m) = m"
      by (subst retryLoop.simps) simp
    then have "run [] (m, inflight)
        = (pr_manager (retryLoop cfg clock up attempt lastErr used errs m), inflight)"
      by (simp add: run_def)
    then show ?thesis by blast
  next
    case True
    obtain res m1 where sel: "GetNextKey ?now m = (res, m1)"
      by (cases "GetNextKey ?now m")
    show ?thesis
    proof (cases res)
      case (Failed e)
      have "pr_manager (retryLoop cfg clock up attempt lastErr used errs m) = m1"
        using True sel Failed by (subst retryLoop.simps) simp
      moreover have "run [Select ?now] (m, inflight) = (m1, inflight)"
        using sel Failed by (simp add: run_def)
      ultimately show ?thesis by metis
    next
      case Panic
      have "pr_manager (retryLoop cfg clock up attempt lastErr used errs m) = m1"
        using True sel Panic by (subst retryLoop.simps) simp
      moreover have "run [Select ?now] (m, inflight) = (m1, inflight)"
        using sel Panic by (simp add: run_def)
      ultimately show ?thesis by metis
    next
      case (Ok apiKey)
      have select: "run [Select ?now] (m, inflight) = (m1, apiKey # inflight)"
        using sel Ok by (simp add: run_def)
      show ?thesis
      proof (cases "makeRequest (up attempt apiKey) apiKey")
        case (Inr resp)
        have "pr_manager (retryLoop cfg clock up attempt lastErr used errs m) = m1"
          using True sel Ok Inr by (subst retryLoop.simps) simp
        moreover have "run [Select ?now, Succeed apiKey] (m, inflight) = (m1, inflight)"
          using sel Ok by (simp add: run_def)
        ultimately show ?thesis by metis
      next
        case (Inl err)
        obtain rr m2 where rec: "RecordError ?now apiKey err m1 = (rr, m2)"
          by (cases "RecordError ?now apiKey err m1")
        have attempt: "run [Select ?now, Fail ?now apiKey err] (m, inflight) = (m2, inflight)"
          using sel Ok rec by (simp add: run_def)
        show ?thesis
        proof (cases "rr \<noteq> Panic \<and> IsRetryable err \<and> \<not> length apiKey < 12")
          case False
          have "pr_manager (retryLoop cfg clock up attempt lastErr used errs m) = m2"
            using True sel Ok Inl rec False
            by (subst retryLoop.simps) (cases rr; auto)
          with attempt show ?thesis by metis
        next
          case again: True
          have eq: "retryLoop cfg clock up attempt lastErr used errs m =
              retryLoop cfg clock up (attempt + 1) (Some err) (used @ [apiKey]) (errs @ [err]) m2"
            using True sel Ok Inl rec again
            by (subst retryLoop.simps) (cases rr; simp)
          have "\<exists>evs. run evs (m2, inflight)
              = (pr_manager (retryLoop cfg clock up (attempt + 1) (Some err) (used @ [apiKey])
                   (errs @ [err]) m2), inflight)"
          proof (cases rr)
            case (Ok u)
            from again have "\<not> \<not> IsRetryable err" "\<not> length apiKey < 12" by simp_all
            from "1.IH"(1) [OF True sel [symmetric] \<open>res = Ok apiKey\<close> Inl rec [symmetric] Ok this]
            show ?thesis .
          next
            case (Failed e)
            from again have "\<not> \<not> IsRetryable err" "\<not> length apiKey < 12" by simp_all
            from "1.IH"(2) [OF True sel [symmetric] \<open>res = Ok apiKey\<close> Inl rec [symmetric] Failed this]
            show ?thesis .
          next
            case Panic
            with again show ?thesis by simp
          qed
          then obtain evs where "run evs (m2, inflight)
              = (pr_manager (retryLoop cfg clock up attempt lastErr used errs m), inflight)"
            unfolding eq by blast
          with attempt
          have "run ([Select ?now, Fail ?now apiKey err] @ evs) (m, inflight)
              = (pr_manager (retryLoop cfg clock up attempt lastErr used errs m), inflight)"
            by (simp only: run_append)
          then show ?thesis by blast
        qed
      qed
    qed
  qed
qed

lemma proxyTavilyRequest_is_run:
  "\<exists>evs. run evs (m, inflight) = (pr_manager (proxyTavilyRequest cfg clock up body m), inflight)"
proof (cases body)
  case None
  then have "run [] (m, inflight)
      = (pr_manager (proxyTavilyRequest cfg clock up body m), inflight)"
    by (simp add: proxyTavilyRequest_def run_def)
  then show ?thesis by blast
next
  case (Some b)
  with retryLoop_is_run [of m inflight cfg clock up 0 None "[]" "[]"] show ?thesis
    by (simp add: proxyTavilyRequest_def)
qed

text \<open>
  C5. From a manager as \<open>NewManager\<close> returns it, with all counters zero, after every
  sequence of fewer than \<open>2^63\<close> steps (selections, recorded requests, outcomes of
  attempts in flight, usage updates) the error counter of every key is at most its
  request counter: an error is recorded only for a key in flight, whose selection has
  counted a request. Every prefix of a sequence is a sequence, so this holds at all times,
  and every execution of the proxy handler is such a sequence. The counters are 64-bit;
  no shorter sequence can make one wrap.
\<close>

theorem requests_bound_errors:
  "NewManager cfg now repo = Inr m0 \<Longrightarrow> length evs < 2 ^ 63 \<Longrightarrow>
     0 \<le> sint (getErrorCount (fst (run evs (m0, []))) k)
     \<and> sint (getErrorCount (fst (run evs (m0, []))) k)
         \<le> sint (getRequestCount (fst (run evs (m0, []))) k)"
proof -
  assume new: "NewManager cfg now repo = Inr m0" and small: "length evs < 2 ^ 63"
  have "countersInv 0 (m0, [])"
    using NewManager_counts [OF new] by (simp add: countersInv_def)
  from run_countersInv [OF this small]
  have "countersInv (length evs) (run evs (m0, []))" .
  then have "0 \<le> sint (getErrorCount (fst (run evs (m0, []))) k)"
    and "sint (getErrorCount (fst (run evs (m0, []))) k)
           + int (count_list (snd (run evs (m0, []))) k)
         \<le> sint (getRequestCount (fst (run evs (m0, []))) k)"
    by (simp_all add: countersInv_def)
  then show ?thesis by linarith
qed

theorem requests_bound_errors_witness:
  "NewManager defaultConfig 0 (repoOf [''tvly-key-0001'', ''tvly-key-0002''])
     = Inr (startedManager [''tvly-key-0001'', ''tvly-key-0002''])
   \<and> length sampleEvents < 2 ^ 63
   \<and> sint (getErrorCount (fst (run sampleEvents
            (startedManager [''tvly-key-0001'', ''tvly-key-0002''], []))) ''tvly-key-0002'') = 1
   \<and> sint (getRequestCount (fst (run sampleEvents
            (startedManager [''tvly-key-0001'', ''tvly-key-0002''], []))) ''tvly-key-0002'') = 1
   \<and> sint (getErrorCount (fst (run sampleEvents
            (startedManager [''tvly-key-0001'', ''tvly-key-0002''], []))) ''tvly-key-0001'') = 0
   \<and> sint (getRequestCount (fst (run sampleEvents
            (startedManager [''tvly-key-0001'', ''tvly-key-0002''], []))) ''tvly-key-0001'') = 2"
proof -
  have started: "NewManager defaultConfig 0 (repoOf [''tvly-key-0001'', ''tvly-key-0002''])
     = Inr (startedManager [''tvly-key-0001'', ''tvly-key-0002''])"
    by (simp add: startedManager_def NewManager_def loadKeys_def GetAllActiveKeys_def repoOf_def
          emptyRepo_def CreateKey_def Let_def)
  have short: "length sampleEvents < 2 ^ 63"
    by (simp add: sampleEvents_def)
  have counts:
    "getErrorCount (fst (run sampleEvents
        (startedManager [''tvly-key-0001'', ''tvly-key-0002''], []))) ''tvly-key-0002'' = 1"
    "getRequestCount (fst (run sampleEvents
        (startedManager [''tvly-key-0001'', ''tvly-key-0002''], []))) ''tvly-key-0002'' = 1"
    "getErrorCount (fst (run sampleEvents
        (startedManager [''tvly-key-0001'', ''tvly-key-0002''], []))) ''tvly-key-0001'' = 0"
    "getRequestCount (fst (run sampleEvents
        (startedManager [''tvly-key-0001'', ''tvly-key-0002''], []))) ''tvly-key-0001'' = 2"
    by (simp_all add: run_def sampleEvents_def startedManager_def NewManager_def loadKeys_def
          GetAllActiveKeys_def repoOf_def emptyRepo_def CreateKey_def defaultConfig_def
          initializeKeyStatus_def initKey_def NewTracker_def Let_def GetNextKey_def
          GetNextKeyWithStrategy_def StrategyPlanFirst_def getRoundRobinKey_def GetOptimalKey_def
          GetAllUsage_def updateKeyUsage_def getRequestCount_def go_rem_def ParseHTTPError_def
          statusSwitch_def NewTavilyErrorWithKey_def NewTavilyError_def RecordError_def
          getErrorCount_def Error_def ErrorTypeString_def IsPermanent_def BlacklistKey_def
          Repo_BlacklistKey_def)
  from requests_bound_errors [OF started short, of "''tvly-key-0002''"] started short counts
  show ?thesis by simp
qed

end
